theory Spec2Isabelle
  imports Main "HOL-Library.Word" "HOL-Library.Sublist"
begin

section \<open>JavaScript strings\<close>

text \<open>
  A JavaScript string is a sequence of 16-bit code units. The output captured from a
  child process is such a string; the literals of \<^verbatim>\<open>rustup.ts\<close> are ASCII and are
  written as HOL strings, converted by \<open>js\<close> where they meet a captured output.
\<close>

type_synonym code_unit = "16 word"
type_synonym jsstring = "code_unit list"

definition js :: "string \<Rightarrow> jsstring" where
  "js s = map of_char s"

text \<open>
  \<^verbatim>\<open>String.prototype.indexOf(pat)\<close>: the least index at which \<open>pat\<close> occurs, or \<open>-1\<close>.
  \<open>indexOf_at s pat k\<close> scans the rest \<open>s\<close> of the string, which starts at index \<open>k\<close>.
\<close>

fun indexOf_at :: "jsstring \<Rightarrow> jsstring \<Rightarrow> nat \<Rightarrow> int" where
  "indexOf_at [] pat k = (if pat = [] then int k else - 1)"
| "indexOf_at (x # xs) pat k =
     (if prefix pat (x # xs) then int k else indexOf_at xs pat (Suc k))"

definition indexOf :: "jsstring \<Rightarrow> jsstring \<Rightarrow> int" where
  "indexOf s pat = indexOf_at s pat 0"

section \<open>Regular expressions of the component probe\<close>

text \<open>
  The three patterns of \<open>hasRlsComponents\<close> are regular-expression literals with the
  \<^verbatim>\<open>m\<close> flag and no other flag. They are built from literal characters, \<^verbatim>\<open>.\<close>,
  \<^verbatim>\<open>*\<close>, an alternative and the assertions \<^verbatim>\<open>^\<close> and \<^verbatim>\<open>$\<close>. Without the
  \<^verbatim>\<open>u\<close> flag a pattern is matched code unit by code unit.
\<close>

datatype rx = Eps | Chr code_unit | Dot | Bol | Eol | Seq rx rx | Alt rx rx | Star rx

text \<open>The line terminators of ECMAScript: LF, CR, LINE SEPARATOR, PARAGRAPH SEPARATOR.\<close>

definition lineTerminator :: "code_unit \<Rightarrow> bool" where
  "lineTerminator c = (c = 0x000A \<or> c = 0x000D \<or> c = 0x2028 \<or> c = 0x2029)"

text \<open>
  A position in the input: the code unit before it (\<open>None\<close> at index 0) and the rest of
  the input from there on.
\<close>

type_synonym cursor = "code_unit option \<times> jsstring"

text \<open>
  Iterating a pattern: each round must consume input (an iteration matching the empty
  string is rejected by the matcher of ECMAScript), so as many rounds as code units
  remain are enough.
\<close>

fun star_ends :: "(cursor \<Rightarrow> cursor list) \<Rightarrow> nat \<Rightarrow> cursor \<Rightarrow> cursor list" where
  "star_ends f 0 c = [c]"
| "star_ends f (Suc n) c =
     c # concat (map (star_ends f n)
                   (filter (\<lambda>c'. length (snd c') < length (snd c)) (f c)))"

text \<open>
  \<open>rx_ends r c\<close>: the positions at which a match of \<open>r\<close> that starts at \<open>c\<close> can end.
  With the \<^verbatim>\<open>m\<close> flag, \<^verbatim>\<open>^\<close> holds at index 0 and after a line terminator, \<^verbatim>\<open>$\<close>
  at the end of the input and before a line terminator; \<^verbatim>\<open>.\<close> takes any code unit
  but a line terminator. The order in which a backtracking matcher tries the positions
  does not matter to whether a match exists.
\<close>

primrec rx_ends :: "rx \<Rightarrow> cursor \<Rightarrow> cursor list" where
  "rx_ends Eps c = [c]"
| "rx_ends (Chr a) c =
     (case snd c of [] \<Rightarrow> [] | x # xs \<Rightarrow> if x = a then [(Some x, xs)] else [])"
| "rx_ends Dot c =
     (case snd c of [] \<Rightarrow> [] | x # xs \<Rightarrow> if lineTerminator x then [] else [(Some x, xs)])"
| "rx_ends Bol c =
     (case fst c of None \<Rightarrow> [c] | Some p \<Rightarrow> if lineTerminator p then [c] else [])"
| "rx_ends Eol c =
     (case snd c of [] \<Rightarrow> [c] | x # xs \<Rightarrow> if lineTerminator x then [c] else [])"
| "rx_ends (Seq r1 r2) c = concat (map (rx_ends r2) (rx_ends r1 c))"
| "rx_ends (Alt r1 r2) c = rx_ends r1 c @ rx_ends r2 c"
| "rx_ends (Star r) c = star_ends (rx_ends r) (length (snd c)) c"

text \<open>
  \<^verbatim>\<open>String.prototype.search(regexp)\<close>: the least index at which a match starts, or
  \<open>-1\<close>. \<open>search_at r p s k\<close> scans the rest \<open>s\<close> of the input, which starts at index
  \<open>k\<close> and is preceded by \<open>p\<close>.
\<close>

fun search_at :: "rx \<Rightarrow> code_unit option \<Rightarrow> jsstring \<Rightarrow> nat \<Rightarrow> int" where
  "search_at r p [] k = (if rx_ends r (p, []) \<noteq> [] then int k else - 1)"
| "search_at r p (x # xs) k =
     (if rx_ends r (p, x # xs) \<noteq> [] then int k else search_at r (Some x) xs (Suc k))"

definition search :: "jsstring \<Rightarrow> rx \<Rightarrow> int" where
  "search s r = search_at r None s 0"

text \<open>A run of literal characters of a pattern.\<close>

definition lit :: "string \<Rightarrow> rx" where
  "lit s = foldr (\<lambda>c r. Seq (Chr (of_char c)) r) s Eps"

text \<open>
  \<^verbatim>\<open>/^rls.* \((default|installed)\)$/m\<close>, \<^verbatim>\<open>/^rust-analysis.* \((default|installed)\)$/m\<close>
  and \<^verbatim>\<open>/^rust-src.* \((default|installed)\)$/m\<close> differ in the component name only.
\<close>

definition component_rx :: "string \<Rightarrow> rx" where
  "component_rx name =
     Seq Bol (Seq (lit name) (Seq (Star Dot) (Seq (lit '' ('')
       (Seq (Alt (lit ''default'') (lit ''installed'')) (Seq (lit '')'') Eol)))))"

section \<open>The host: command runner, prompts, spinner\<close>

text \<open>
  \<open>rustup.ts\<close> talks to its surroundings through \<open>execChildProcess\<close>,
  \<open>window.showInformationMessage\<close>, \<open>window.showErrorMessage\<close>, \<open>startSpinner\<close>,
  \<open>stopSpinner\<close>, \<open>console.log\<close> and \<open>child_process.spawn\<close>. Every such call is
  recorded, in order, in a trace of events; a call whose answer the code looks at is
  recorded with its answer. Those answers come from the host, which may let them depend
  on everything that happened before (the trace so far): the same command can succeed
  at one time and fail at another. A command resolves with its captured standard output
  and standard error, or rejects with a value that is opaque to this module, of type
  \<open>'e\<close>. A prompt resolves with the label that was clicked, or with \<^verbatim>\<open>undefined\<close>.

  The calls whose result the code does not look at (\<open>console.log\<close>, the spinner,
  \<open>window.showErrorMessage\<close>, \<open>child_process.spawn\<close>) are taken to return normally,
  and a prompt is taken to resolve: \<open>utils/child_process\<close>, \<open>spinner\<close> and the editor
  are not part of this module.
\<close>

type_synonym env = "string \<rightharpoonup> string"

type_synonym 'e exec_result = "'e + (jsstring \<times> jsstring)"

datatype 'e event =
    Exec string "'e exec_result"
  | ShowInformationMessage string "string list" "string option"
  | ShowErrorMessage string
  | StartSpinner string
  | StopSpinner string
  | ConsoleLogError 'e
  | ConsoleLog jsstring
  | Spawn string "string list" env

record 'e host =
  execChildProcess :: "'e event list \<Rightarrow> string \<Rightarrow> 'e exec_result"
  showInformationMessage :: "'e event list \<Rightarrow> string \<Rightarrow> string list \<Rightarrow> string option"

text \<open>
  What a promise of this module rejects with: the value the command runner rejected
  with, rethrown as it is, or an \<^verbatim>\<open>Error\<close> object made here, with its message
  (\<^verbatim>\<open>new Error()\<close> has the empty message).
\<close>

datatype 'e error = Rejected 'e | JsError string

text \<open>The handle of a spawned process: the command, its arguments and \<^verbatim>\<open>options.env\<close>.\<close>

datatype child_process = ChildProcess string "string list" env

section \<open>rustup.ts\<close>

definition rustupUpdate :: "'e host \<Rightarrow> 'e event list \<Rightarrow> ('e error + unit) \<times> 'e event list" where
  "rustupUpdate h t =
     (let t1 = t @ [StartSpinner ''Updating RLS...''];
          r = execChildProcess h t1 ''rustup update''
      in case r of
        Inr (stdout, stderr) \<Rightarrow>
          if - 1 < indexOf stdout (js ''unchanged'')
          then (Inr (), t1 @ [Exec ''rustup update'' r, StopSpinner ''Up to date.''])
          else (Inr (), t1 @ [Exec ''rustup update'' r,
                  StopSpinner ''Up to date. Restart extension for changes to take effect.''])
      | Inl e \<Rightarrow>
          (Inr (), t1 @ [Exec ''rustup update'' r, ConsoleLogError e,
             StopSpinner ''An error occurred whilst trying to update.'']))"

definition hasNightlyToolchain :: "'e host \<Rightarrow> 'e event list \<Rightarrow> ('e error + bool) \<times> 'e event list" where
  "hasNightlyToolchain h t =
     (let r = execChildProcess h t ''rustup toolchain list''
      in case r of
        Inr (stdout, stderr) \<Rightarrow>
          (let hasNightly = - 1 < indexOf stdout (js ''nightly'')
           in (Inr hasNightly, t @ [Exec ''rustup toolchain list'' r]))
      | Inl e \<Rightarrow>
          (Inl (Rejected e), t @ [Exec ''rustup toolchain list'' r, ConsoleLogError e,
             ShowErrorMessage ''Rustup not available. Install from https://www.rustup.rs/'']))"

definition tryToInstallNightlyToolchain ::
    "'e host \<Rightarrow> 'e event list \<Rightarrow> ('e error + unit) \<times> 'e event list" where
  "tryToInstallNightlyToolchain h t =
     (let t1 = t @ [StartSpinner ''Installing nightly toolchain...''];
          r = execChildProcess h t1 ''rustup toolchain install nightly''
      in case r of
        Inr (stdout, stderr) \<Rightarrow>
          (Inr (), t1 @ [Exec ''rustup toolchain install nightly'' r, ConsoleLog stdout,
             ConsoleLog stderr, StopSpinner ''Nightly toolchain installed successfully''])
      | Inl e \<Rightarrow>
          (Inl (Rejected e), t1 @ [Exec ''rustup toolchain install nightly'' r,
             ConsoleLogError e, ShowErrorMessage ''Could not install nightly toolchain'',
             StopSpinner ''Could not install nightly toolchain'']))"

definition checkForNightly :: "'e host \<Rightarrow> 'e event list \<Rightarrow> ('e error + unit) \<times> 'e event list" where
  "checkForNightly h t =
     (case hasNightlyToolchain h t of
        (Inl e, t1) \<Rightarrow> (Inl e, t1)
      | (Inr hasNightly, t1) \<Rightarrow>
          if hasNightly then (Inr (), t1)
          else
            (let clicked = showInformationMessage h t1
                   ''Nightly toolchain not installed. Install?'' [''Yes''];
                 t2 = t1 @ [ShowInformationMessage
                   ''Nightly toolchain not installed. Install?'' [''Yes''] clicked]
             in if clicked = Some ''Yes'' then tryToInstallNightlyToolchain h t2
                else (Inl (JsError []), t2)))"

definition hasRlsComponents :: "'e host \<Rightarrow> 'e event list \<Rightarrow> ('e error + bool) \<times> 'e event list" where
  "hasRlsComponents h t =
     (let r = execChildProcess h t ''rustup component list --toolchain nightly''
      in case r of
        Inr (stdout, stderr) \<Rightarrow>
          (if search stdout (component_rx ''rls'') = - 1 \<or>
              search stdout (component_rx ''rust-analysis'') = - 1 \<or>
              search stdout (component_rx ''rust-src'') = - 1
           then (Inr False, t @ [Exec ''rustup component list --toolchain nightly'' r])
           else (Inr True, t @ [Exec ''rustup component list --toolchain nightly'' r]))
      | Inl e \<Rightarrow>
          (Inl (Rejected e), t @ [Exec ''rustup component list --toolchain nightly'' r,
             ConsoleLogError e,
             ShowErrorMessage ''Unexpected error initialising RLS - error running rustup'']))"

text \<open>The local function \<open>tryFn\<close> of \<open>installRls\<close>: it returns an error or null, and never throws.\<close>

definition tryFn :: "'e host \<Rightarrow> string \<Rightarrow> 'e event list \<Rightarrow> 'e error option \<times> 'e event list" where
  "tryFn h component t =
     (let cmd = ''rustup component add '' @ component @ '' --toolchain nightly'';
          r = execChildProcess h t cmd
      in case r of
        Inr (stdout, stderr) \<Rightarrow> (None, t @ [Exec cmd r, ConsoleLog stdout, ConsoleLog stderr])
      | Inl _ \<Rightarrow>
          (let err = JsError (''installing '' @ component @ '' failed'')
           in (Some err, t @ [Exec cmd r,
                 ShowErrorMessage (''Could not install RLS component ('' @ component @ '')'')])))"

definition installRls :: "'e host \<Rightarrow> 'e event list \<Rightarrow> ('e error + unit) \<times> 'e event list" where
  "installRls h t =
     (let t0 = t @ [StartSpinner ''Installing RLS components''] in
      case tryFn h ''rust-analysis'' t0 of
        (Some e, t1) \<Rightarrow> (Inl e, t1 @ [StopSpinner ''Could not install RLS''])
      | (None, t1) \<Rightarrow>
      (case tryFn h ''rust-src'' t1 of
        (Some e, t2) \<Rightarrow> (Inl e, t2 @ [StopSpinner ''Could not install RLS''])
      | (None, t2) \<Rightarrow>
      (case tryFn h ''rls'' (t2 @ [ConsoleLog (js ''install rls'')]) of
        (Some e, t3) \<Rightarrow> (Inl e, t3 @ [StopSpinner ''Could not install RLS''])
      | (None, t3) \<Rightarrow> (Inr (), t3 @ [StopSpinner ''RLS components installed successfully'']))))"

definition checkForRls :: "'e host \<Rightarrow> 'e event list \<Rightarrow> ('e error + unit) \<times> 'e event list" where
  "checkForRls h t =
     (case hasRlsComponents h t of
        (Inl e, t1) \<Rightarrow> (Inl e, t1)
      | (Inr hasRls, t1) \<Rightarrow>
          if hasRls then (Inr (), t1)
          else
            (let clicked = showInformationMessage h t1 ''RLS not installed. Install?'' [''Yes''];
                 t2 = t1 @ [ShowInformationMessage ''RLS not installed. Install?'' [''Yes''] clicked]
             in if clicked = Some ''Yes'' then installRls h t2
                else (Inl (JsError []), t2)))"

text \<open>
  \<^verbatim>\<open>checkForNightly().then(checkForRls).then(() => spawn(...))\<close>: a rejected promise
  skips the handlers after it.
\<close>

definition runRlsViaRustup ::
    "'e host \<Rightarrow> env \<Rightarrow> 'e event list \<Rightarrow> ('e error + child_process) \<times> 'e event list" where
  "runRlsViaRustup h env t =
     (case checkForNightly h t of
        (Inl e, t1) \<Rightarrow> (Inl e, t1)
      | (Inr _, t1) \<Rightarrow>
      (case checkForRls h t1 of
        (Inl e, t2) \<Rightarrow> (Inl e, t2)
      | (Inr _, t2) \<Rightarrow>
          (Inr (ChildProcess ''rustup'' [''run'', ''nightly'', ''rls''] env),
           t2 @ [Spawn ''rustup'' [''run'', ''nightly'', ''rls''] env])))"

section \<open>Observing a trace\<close>

text \<open>
  What the claims say about a run is read off its trace: the commands that were run and
  whether each resolved, the processes that were spawned, the calls to the spinner.
\<close>

fun execs :: "'e event list \<Rightarrow> (string \<times> bool) list" where
  "execs [] = []"
| "execs (Exec cmd r # es) = (cmd, (case r of Inl _ \<Rightarrow> False | Inr _ \<Rightarrow> True)) # execs es"
| "execs (_ # es) = execs es"

fun spawns :: "'e event list \<Rightarrow> (string \<times> string list \<times> env) list" where
  "spawns [] = []"
| "spawns (Spawn cmd args env # es) = (cmd, args, env) # spawns es"
| "spawns (_ # es) = spawns es"

fun spinner_calls :: "'e event list \<Rightarrow> 'e event list" where
  "spinner_calls [] = []"
| "spinner_calls (StartSpinner m # es) = StartSpinner m # spinner_calls es"
| "spinner_calls (StopSpinner m # es) = StopSpinner m # spinner_calls es"
| "spinner_calls (_ # es) = spinner_calls es"

fun is_spawn :: "'e event \<Rightarrow> bool" where
  "is_spawn (Spawn cmd args env) = True"
| "is_spawn _ = False"

fun is_component_probe :: "'e event \<Rightarrow> bool" where
  "is_component_probe (Exec cmd r) = (cmd = ''rustup component list --toolchain nightly'')"
| "is_component_probe _ = False"

text \<open>\<open>resolved_with cmd P ev\<close>: the event is the command \<open>cmd\<close>, which resolved with a
  standard output satisfying \<open>P\<close>.\<close>

fun resolved_with :: "string \<Rightarrow> (jsstring \<Rightarrow> bool) \<Rightarrow> 'e event \<Rightarrow> bool" where
  "resolved_with cmd P (Exec c (Inr (out, err))) = (c = cmd \<and> P out)"
| "resolved_with cmd P _ = False"

text \<open>
  The toolchain step has succeeded in a trace when \<^verbatim>\<open>rustup toolchain list\<close> resolved
  with an output that names a nightly toolchain, or the install of the nightly toolchain
  resolved.
\<close>

definition toolchain_ready :: "'e event list \<Rightarrow> bool" where
  "toolchain_ready tr =
     (list_ex (resolved_with ''rustup toolchain list'' (sublist (js ''nightly''))) tr \<or>
      list_ex (resolved_with ''rustup toolchain install nightly'' (\<lambda>out. True)) tr)"

text \<open>The test of \<open>hasRlsComponents\<close> on the output of the component list.\<close>

definition components_listed :: "jsstring \<Rightarrow> bool" where
  "components_listed out =
     (search out (component_rx ''rls'') \<noteq> - 1 \<and>
      search out (component_rx ''rust-analysis'') \<noteq> - 1 \<and>
      search out (component_rx ''rust-src'') \<noteq> - 1)"

text \<open>
  The component step has succeeded in a trace when \<^verbatim>\<open>rustup component list\<close> resolved
  with an output that passes that test, or all three components were added.
\<close>

definition components_ready :: "'e event list \<Rightarrow> bool" where
  "components_ready tr =
     (list_ex (resolved_with ''rustup component list --toolchain nightly'' components_listed) tr \<or>
      list_ex (resolved_with ''rustup component add rust-analysis --toolchain nightly'' (\<lambda>out. True)) tr \<and>
      list_ex (resolved_with ''rustup component add rust-src --toolchain nightly'' (\<lambda>out. True)) tr \<and>
      list_ex (resolved_with ''rustup component add rls --toolchain nightly'' (\<lambda>out. True)) tr)"

text \<open>
  A monitor for the order of a run: every spawn comes after both steps have succeeded,
  and every component probe after the toolchain step has succeeded. \<open>seen\<close> is the part
  of the trace before the events still to be looked at.
\<close>

fun ordered :: "'e event list \<Rightarrow> 'e event list \<Rightarrow> bool" where
  "ordered seen [] = True"
| "ordered seen (ev # rest) =
     ((is_spawn ev \<longrightarrow> toolchain_ready seen \<and> components_ready seen) \<and>
      (is_component_probe ev \<longrightarrow> toolchain_ready seen) \<and>
      ordered (seen @ [ev]) rest)"

section \<open>Lines of an output\<close>

text \<open>
  The lines of a string: the maximal runs without a line terminator. A string with \<open>n\<close>
  line terminators has \<open>n + 1\<close> lines, some of which may be empty.
\<close>

fun lines_of :: "jsstring \<Rightarrow> jsstring list" where
  "lines_of [] = [[]]"
| "lines_of (x # xs) =
     (if lineTerminator x then [] # lines_of xs
      else (case lines_of xs of l # ls \<Rightarrow> (x # l) # ls | [] \<Rightarrow> [[x]]))"

text \<open>
  \<open>line_shows name sep l\<close>: the line \<open>l\<close> starts with the component name and, after
  the name, ends with \<open>sep\<close> followed by \<^verbatim>\<open>(default)\<close> or \<^verbatim>\<open>(installed)\<close>. That is a
  match of the whole line against \<^verbatim>\<open>^name.*sep\((default|installed)\)$\<close>.
\<close>

definition line_shows :: "string \<Rightarrow> string \<Rightarrow> jsstring \<Rightarrow> bool" where
  "line_shows name sep l =
     (prefix (js name) l \<and>
      (suffix (js (sep @ ''(default)'')) (drop (length name) l) \<or>
       suffix (js (sep @ ''(installed)'')) (drop (length name) l)))"

text \<open>Auxiliary notions for the proofs about the matcher.\<close>

definition lastc :: "code_unit option \<Rightarrow> jsstring \<Rightarrow> code_unit option" where
  "lastc p s = (if s = [] then p else Some (last s))"

definition bol :: "code_unit option \<Rightarrow> bool" where
  "bol p = (case p of None \<Rightarrow> True | Some c \<Rightarrow> lineTerminator c)"

definition eol :: "jsstring \<Rightarrow> bool" where
  "eol xs = (case xs of [] \<Rightarrow> True | x # _ \<Rightarrow> lineTerminator x)"

abbreviation (input) notLT :: "code_unit \<Rightarrow> bool" where
  "notLT \<equiv> (\<lambda>x. \<not> lineTerminator x)"

section \<open>Scripted hosts and sample outputs\<close>

text \<open>
  A host that answers every command by a fixed table and every prompt with one fixed
  answer, whatever happened before.
\<close>

definition scripted :: "(string \<Rightarrow> 'e exec_result) \<Rightarrow> string option \<Rightarrow> 'e host" where
  "scripted run answer =
     \<lparr>execChildProcess = (\<lambda>t cmd. run cmd), showInformationMessage = (\<lambda>t msg items. answer)\<rparr>"

text \<open>Outputs of \<^verbatim>\<open>rustup toolchain list\<close>, with and without a nightly toolchain.\<close>

definition toolchains_A :: jsstring where
  "toolchains_A = js ''stable-x86_64'' @ [0x0A] @ js ''nightly-x86_64 (default)'' @ [0x0A]"

definition toolchains_B :: jsstring where
  "toolchains_B = js ''stable-x86_64 (default)'' @ [0x0A]"

text \<open>
  Outputs of \<^verbatim>\<open>rustup component list --toolchain nightly\<close>: all three components
  installed; no line for \<^verbatim>\<open>rust-src\<close>; and all three lines with no space before the
  annotation.
\<close>

definition components_ok :: jsstring where
  "components_ok =
     js ''rls-preview (installed)'' @ [0x0A] @
     js ''rust-analysis-x86_64-unknown-linux-gnu (installed)'' @ [0x0A] @
     js ''rust-src (installed)'' @ [0x0A]"

definition components_no_src :: jsstring where
  "components_no_src =
     js ''rls-preview (installed)'' @ [0x0A] @
     js ''rust-analysis-x86_64-unknown-linux-gnu (installed)'' @ [0x0A] @
     js ''rust-std-x86_64-unknown-linux-gnu (default)'' @ [0x0A]"

definition components_nospace :: jsstring where
  "components_nospace =
     js ''rls(installed)'' @ [0x0A] @ js ''rust-analysis(installed)'' @ [0x0A] @
     js ''rust-src(installed)'' @ [0x0A]"

text \<open>An output of \<^verbatim>\<open>rustup update\<close> that reports no change.\<close>

definition update_unchanged :: jsstring where
  "update_unchanged = js ''info: toolchain 'nightly-x86_64' unchanged''"

definition env0 :: env where "env0 = [''PATH'' \<mapsto> ''/usr/bin'', ''RUST_LOG'' \<mapsto> ''info'']"

text \<open>Everything is installed already.\<close>

definition host_ready :: "string host" where
  "host_ready =
     scripted (\<lambda>cmd. if cmd = ''rustup toolchain list'' then Inr (toolchains_A, [])
                     else if cmd = ''rustup component list --toolchain nightly''
                     then Inr (components_ok, [])
                     else Inl ''exit status 1'') None"

text \<open>Every command fails.\<close>

definition host_broken :: "string host" where
  "host_broken = scripted (\<lambda>cmd. Inl ''exit status 1'') None"

text \<open>No nightly toolchain, and the offer to install it is dismissed.\<close>

definition host_declined :: "string host" where
  "host_declined =
     scripted (\<lambda>cmd. if cmd = ''rustup toolchain list'' then Inr (toolchains_B, [])
                     else Inl ''exit status 1'') None"

text \<open>No nightly toolchain, the offer is accepted, and the install fails.\<close>

definition host_install_fails :: "string host" where
  "host_install_fails =
     scripted (\<lambda>cmd. if cmd = ''rustup toolchain list'' then Inr (toolchains_B, [])
                     else Inl ''exit status 1'') (Some ''Yes'')"

text \<open>Adding \<^verbatim>\<open>rust-analysis\<close> succeeds, every other command fails.\<close>

definition host_src_fails :: "string host" where
  "host_src_fails =
     scripted (\<lambda>cmd. if cmd = ''rustup component add rust-analysis --toolchain nightly''
                     then Inr (js ''info: component installed'', [])
                     else Inl ''exit status 1'') None"

text \<open>Every command succeeds, with no output.\<close>

definition host_installs :: "string host" where
  "host_installs = scripted (\<lambda>cmd. Inr ([], [])) None"

section \<open>Results\<close>

subsection \<open>Helper facts: strings and traces\<close>

lemma exec_scripted [simp]: "execChildProcess (scripted run a) t c = run c"
  by (simp add: scripted_def)

lemma ask_scripted [simp]: "showInformationMessage (scripted run a) t m l = a"
  by (simp add: scripted_def)

lemma indexOf_at_found: "(- 1 < indexOf_at s pat k) = sublist pat s"
  by (induction s arbitrary: k) (auto simp: sublist_Cons_right)

lemma js_append [simp]: "js (a @ b) = js a @ js b"
  by (simp add: js_def)

lemma length_js [simp]: "length (js s) = length s"
  by (simp add: js_def)

lemma execs_append [simp]: "execs (xs @ ys) = execs xs @ execs ys"
  by (induction xs rule: execs.induct) simp_all

lemma spawns_append [simp]: "spawns (xs @ ys) = spawns xs @ spawns ys"
  by (induction xs rule: spawns.induct) simp_all

lemma spinner_calls_append [simp]: "spinner_calls (xs @ ys) = spinner_calls xs @ spinner_calls ys"
  by (induction xs rule: spinner_calls.induct) simp_all

lemma ordered_split:
  "ordered seen (pre @ ev # post) \<Longrightarrow>
     (is_spawn ev \<longrightarrow> toolchain_ready (seen @ pre) \<and> components_ready (seen @ pre)) \<and>
     (is_component_probe ev \<longrightarrow> toolchain_ready (seen @ pre))"
proof (induction pre arbitrary: seen)
  case Nil
  then show ?case by simp
next
  case (Cons a pre)
  from Cons.prems have "ordered (seen @ [a]) (pre @ ev # post)" by simp
  from Cons.IH [OF this] show ?case by simp
qed

subsection \<open>Helper facts: the paths of each operation\<close>

lemma hasNightlyToolchain_resolved:
  "execChildProcess h t ''rustup toolchain list'' = Inr (out, err) \<Longrightarrow>
   hasNightlyToolchain h t =
     (Inr (sublist (js ''nightly'') out), t @ [Exec ''rustup toolchain list'' (Inr (out, err))])"
  by (simp add: hasNightlyToolchain_def indexOf_def indexOf_at_found)

lemma hasNightlyToolchain_rejected:
  "execChildProcess h t ''rustup toolchain list'' = Inl x \<Longrightarrow>
   hasNightlyToolchain h t =
     (Inl (Rejected x),
      t @ [Exec ''rustup toolchain list'' (Inl x), ConsoleLogError x,
           ShowErrorMessage ''Rustup not available. Install from https://www.rustup.rs/''])"
  by (simp add: hasNightlyToolchain_def)

lemma hasRlsComponents_resolved:
  "execChildProcess h t ''rustup component list --toolchain nightly'' = Inr (out, err) \<Longrightarrow>
   hasRlsComponents h t =
     (Inr (components_listed out),
      t @ [Exec ''rustup component list --toolchain nightly'' (Inr (out, err))])"
  by (auto simp: hasRlsComponents_def components_listed_def Let_def)

lemma hasRlsComponents_rejected:
  "execChildProcess h t ''rustup component list --toolchain nightly'' = Inl x \<Longrightarrow>
   hasRlsComponents h t =
     (Inl (Rejected x),
      t @ [Exec ''rustup component list --toolchain nightly'' (Inl x), ConsoleLogError x,
           ShowErrorMessage ''Unexpected error initialising RLS - error running rustup''])"
  by (simp add: hasRlsComponents_def)

lemma tryFn_resolved:
  "execChildProcess h t (''rustup component add '' @ c @ '' --toolchain nightly'') = Inr (out, err) \<Longrightarrow>
   tryFn h c t =
     (None, t @ [Exec (''rustup component add '' @ c @ '' --toolchain nightly'') (Inr (out, err)),
                 ConsoleLog out, ConsoleLog err])"
  by (simp add: tryFn_def Let_def)

lemma tryFn_rejected:
  "execChildProcess h t (''rustup component add '' @ c @ '' --toolchain nightly'') = Inl x \<Longrightarrow>
   tryFn h c t =
     (Some (JsError (''installing '' @ c @ '' failed'')),
      t @ [Exec (''rustup component add '' @ c @ '' --toolchain nightly'') (Inl x),
           ShowErrorMessage (''Could not install RLS component ('' @ c @ '')'')])"
  by (simp add: tryFn_def Let_def)

lemma tryFn_cases [case_names resolved rejected]:
  obtains out err where
      "execChildProcess h t (''rustup component add '' @ c @ '' --toolchain nightly'') = Inr (out, err)"
      "tryFn h c t =
         (None, t @ [Exec (''rustup component add '' @ c @ '' --toolchain nightly'') (Inr (out, err)),
                     ConsoleLog out, ConsoleLog err])"
  | x where
      "execChildProcess h t (''rustup component add '' @ c @ '' --toolchain nightly'') = Inl x"
      "tryFn h c t =
         (Some (JsError (''installing '' @ c @ '' failed'')),
          t @ [Exec (''rustup component add '' @ c @ '' --toolchain nightly'') (Inl x),
               ShowErrorMessage (''Could not install RLS component ('' @ c @ '')'')])"
  by (cases "execChildProcess h t (''rustup component add '' @ c @ '' --toolchain nightly'')")
     (auto simp: tryFn_def Let_def)

lemma installRls_cases [case_names analysis_failed src_failed rls_failed installed]:
  obtains
    x where
      "installRls h t =
         (Inl (JsError ''installing rust-analysis failed''),
          t @ [StartSpinner ''Installing RLS components'',
               Exec ''rustup component add rust-analysis --toolchain nightly'' (Inl x),
               ShowErrorMessage ''Could not install RLS component (rust-analysis)'',
               StopSpinner ''Could not install RLS''])"
  | o1 e1 x where
      "installRls h t =
         (Inl (JsError ''installing rust-src failed''),
          t @ [StartSpinner ''Installing RLS components'',
               Exec ''rustup component add rust-analysis --toolchain nightly'' (Inr (o1, e1)),
               ConsoleLog o1, ConsoleLog e1,
               Exec ''rustup component add rust-src --toolchain nightly'' (Inl x),
               ShowErrorMessage ''Could not install RLS component (rust-src)'',
               StopSpinner ''Could not install RLS''])"
  | o1 e1 o2 e2 x where
      "installRls h t =
         (Inl (JsError ''installing rls failed''),
          t @ [StartSpinner ''Installing RLS components'',
               Exec ''rustup component add rust-analysis --toolchain nightly'' (Inr (o1, e1)),
               ConsoleLog o1, ConsoleLog e1,
               Exec ''rustup component add rust-src --toolchain nightly'' (Inr (o2, e2)),
               ConsoleLog o2, ConsoleLog e2, ConsoleLog (js ''install rls''),
               Exec ''rustup component add rls --toolchain nightly'' (Inl x),
               ShowErrorMessage ''Could not install RLS component (rls)'',
               StopSpinner ''Could not install RLS''])"
  | o1 e1 o2 e2 o3 e3 where
      "installRls h t =
         (Inr (),
          t @ [StartSpinner ''Installing RLS components'',
               Exec ''rustup component add rust-analysis --toolchain nightly'' (Inr (o1, e1)),
               ConsoleLog o1, ConsoleLog e1,
               Exec ''rustup component add rust-src --toolchain nightly'' (Inr (o2, e2)),
               ConsoleLog o2, ConsoleLog e2, ConsoleLog (js ''install rls''),
               Exec ''rustup component add rls --toolchain nightly'' (Inr (o3, e3)),
               ConsoleLog o3, ConsoleLog e3,
               StopSpinner ''RLS components installed successfully''])"
proof (cases rule: tryFn_cases [where h = h and c = "''rust-analysis''" and t = "t @ [StartSpinner ''Installing RLS components'']"])
  case (rejected x)
  then show ?thesis using that(1) [of x] by (simp add: installRls_def)
next
  case a: (resolved o1 e1)
  show ?thesis
  proof (cases rule: tryFn_cases [where h = h and c = "''rust-src''" and t =
      "t @ [StartSpinner ''Installing RLS components'',
            Exec ''rustup component add rust-analysis --toolchain nightly'' (Inr (o1, e1)),
            ConsoleLog o1, ConsoleLog e1]"])
    case (rejected x)
    then show ?thesis using a that(2) [of o1 e1 x] by (simp add: installRls_def)
  next
    case b: (resolved o2 e2)
    show ?thesis
    proof (cases rule: tryFn_cases [where h = h and c = "''rls''" and t =
      "t @ [StartSpinner ''Installing RLS components'',
            Exec ''rustup component add rust-analysis --toolchain nightly'' (Inr (o1, e1)),
            ConsoleLog o1, ConsoleLog e1,
            Exec ''rustup component add rust-src --toolchain nightly'' (Inr (o2, e2)),
            ConsoleLog o2, ConsoleLog e2, ConsoleLog (js ''install rls'')]"])
      case (rejected x)
      then show ?thesis using a b that(3) [of o1 e1 o2 e2 x] by (simp add: installRls_def)
    next
      case (resolved o3 e3)
      then show ?thesis using a b that(4) [of o1 e1 o2 e2 o3 e3] by (simp add: installRls_def)
    qed
  qed
qed

lemma tryToInstallNightlyToolchain_cases [case_names installed install_failed]:
  obtains out err where
      "tryToInstallNightlyToolchain h t =
         (Inr (),
          t @ [StartSpinner ''Installing nightly toolchain...'',
               Exec ''rustup toolchain install nightly'' (Inr (out, err)),
               ConsoleLog out, ConsoleLog err,
               StopSpinner ''Nightly toolchain installed successfully''])"
  | x where
      "execChildProcess h (t @ [StartSpinner ''Installing nightly toolchain...''])
         ''rustup toolchain install nightly'' = Inl x"
      "tryToInstallNightlyToolchain h t =
         (Inl (Rejected x),
          t @ [StartSpinner ''Installing nightly toolchain...'',
               Exec ''rustup toolchain install nightly'' (Inl x),
               ConsoleLogError x, ShowErrorMessage ''Could not install nightly toolchain'',
               StopSpinner ''Could not install nightly toolchain''])"
  by (cases "execChildProcess h (t @ [StartSpinner ''Installing nightly toolchain...''])
               ''rustup toolchain install nightly''")
     (auto simp: tryToInstallNightlyToolchain_def Let_def)

lemma rustupUpdate_cases [case_names unchanged changed failed]:
  obtains out err where
      "execChildProcess h (t @ [StartSpinner ''Updating RLS...'']) ''rustup update'' = Inr (out, err)"
      "sublist (js ''unchanged'') out"
      "rustupUpdate h t =
         (Inr (), t @ [StartSpinner ''Updating RLS...'', Exec ''rustup update'' (Inr (out, err)),
                       StopSpinner ''Up to date.''])"
  | out err where
      "execChildProcess h (t @ [StartSpinner ''Updating RLS...'']) ''rustup update'' = Inr (out, err)"
      "\<not> sublist (js ''unchanged'') out"
      "rustupUpdate h t =
         (Inr (), t @ [StartSpinner ''Updating RLS...'', Exec ''rustup update'' (Inr (out, err)),
                       StopSpinner ''Up to date. Restart extension for changes to take effect.''])"
  | x where
      "execChildProcess h (t @ [StartSpinner ''Updating RLS...'']) ''rustup update'' = Inl x"
      "rustupUpdate h t =
         (Inr (), t @ [StartSpinner ''Updating RLS...'', Exec ''rustup update'' (Inl x),
                       ConsoleLogError x,
                       StopSpinner ''An error occurred whilst trying to update.''])"
proof (cases "execChildProcess h (t @ [StartSpinner ''Updating RLS...'']) ''rustup update''")
  case (Inl x)
  then show ?thesis using that(3) [of x] by (simp add: rustupUpdate_def Let_def)
next
  case (Inr p)
  obtain out err where p: "p = (out, err)" by (cases p)
  show ?thesis
  proof (cases "sublist (js ''unchanged'') out")
    case True
    then show ?thesis using Inr p that(1) [of out err]
      by (simp add: rustupUpdate_def Let_def indexOf_def indexOf_at_found)
  next
    case False
    then show ?thesis using Inr p that(2) [of out err]
      by (simp add: rustupUpdate_def Let_def indexOf_def indexOf_at_found)
  qed
qed

lemma checkForNightly_cases [case_names present broken declined installed install_failed]:
  obtains
    out err where
      "execChildProcess h t ''rustup toolchain list'' = Inr (out, err)"
      "sublist (js ''nightly'') out"
      "checkForNightly h t = (Inr (), t @ [Exec ''rustup toolchain list'' (Inr (out, err))])"
  | x where
      "execChildProcess h t ''rustup toolchain list'' = Inl x"
      "checkForNightly h t =
         (Inl (Rejected x),
          t @ [Exec ''rustup toolchain list'' (Inl x), ConsoleLogError x,
               ShowErrorMessage ''Rustup not available. Install from https://www.rustup.rs/''])"
  | out err clicked where
      "execChildProcess h t ''rustup toolchain list'' = Inr (out, err)"
      "\<not> sublist (js ''nightly'') out"
      "clicked \<noteq> Some ''Yes''"
      "checkForNightly h t =
         (Inl (JsError []),
          t @ [Exec ''rustup toolchain list'' (Inr (out, err)),
               ShowInformationMessage ''Nightly toolchain not installed. Install?'' [''Yes''] clicked])"
  | out err o2 e2 where
      "execChildProcess h t ''rustup toolchain list'' = Inr (out, err)"
      "\<not> sublist (js ''nightly'') out"
      "checkForNightly h t =
         (Inr (),
          t @ [Exec ''rustup toolchain list'' (Inr (out, err)),
               ShowInformationMessage ''Nightly toolchain not installed. Install?'' [''Yes'']
                 (Some ''Yes''),
               StartSpinner ''Installing nightly toolchain...'',
               Exec ''rustup toolchain install nightly'' (Inr (o2, e2)),
               ConsoleLog o2, ConsoleLog e2,
               StopSpinner ''Nightly toolchain installed successfully''])"
  | out err x where
      "execChildProcess h t ''rustup toolchain list'' = Inr (out, err)"
      "\<not> sublist (js ''nightly'') out"
      "checkForNightly h t =
         (Inl (Rejected x),
          t @ [Exec ''rustup toolchain list'' (Inr (out, err)),
               ShowInformationMessage ''Nightly toolchain not installed. Install?'' [''Yes'']
                 (Some ''Yes''),
               StartSpinner ''Installing nightly toolchain...'',
               Exec ''rustup toolchain install nightly'' (Inl x),
               ConsoleLogError x, ShowErrorMessage ''Could not install nightly toolchain'',
               StopSpinner ''Could not install nightly toolchain''])"
proof (cases "execChildProcess h t ''rustup toolchain list''")
  case (Inl x)
  then show ?thesis using that(2) [of x]
    by (simp add: checkForNightly_def hasNightlyToolchain_rejected)
next
  case (Inr p)
  obtain out err where p: "p = (out, err)" by (cases p)
  note probe = hasNightlyToolchain_resolved [OF Inr [unfolded p]]
  show ?thesis
  proof (cases "sublist (js ''nightly'') out")
    case True
    then show ?thesis using Inr p that(1) [of out err]
      by (simp add: checkForNightly_def probe)
  next
    case absent: False
    define clicked where "clicked = showInformationMessage h
       (t @ [Exec ''rustup toolchain list'' (Inr (out, err))])
       ''Nightly toolchain not installed. Install?'' [''Yes'']"
    show ?thesis
    proof (cases "clicked = Some ''Yes''")
      case False
      then show ?thesis using Inr p absent that(3) [of out err clicked]
        by (simp add: checkForNightly_def probe Let_def clicked_def)
    next
      case yes: True
      show ?thesis
      proof (cases rule: tryToInstallNightlyToolchain_cases [where h = h and t =
          "t @ [Exec ''rustup toolchain list'' (Inr (out, err)),
               ShowInformationMessage ''Nightly toolchain not installed. Install?'' [''Yes'']
                 (Some ''Yes'')]"])
        case (installed o2 e2)
        then show ?thesis using Inr p absent yes that(4) [of out err o2 e2]
          by (simp add: checkForNightly_def probe Let_def clicked_def)
      next
        case (install_failed x)
        then show ?thesis using Inr p absent yes that(5) [of out err x]
          by (simp add: checkForNightly_def probe Let_def clicked_def)
      qed
    qed
  qed
qed

lemma checkForRls_cases
  [case_names present broken declined analysis_failed src_failed rls_failed installed]:
  obtains
    out err where
      "components_listed out"
      "checkForRls h t =
         (Inr (), t @ [Exec ''rustup component list --toolchain nightly'' (Inr (out, err))])"
  | x where
      "checkForRls h t =
         (Inl (Rejected x),
          t @ [Exec ''rustup component list --toolchain nightly'' (Inl x), ConsoleLogError x,
               ShowErrorMessage ''Unexpected error initialising RLS - error running rustup''])"
  | out err clicked where
      "\<not> components_listed out"
      "clicked \<noteq> Some ''Yes''"
      "checkForRls h t =
         (Inl (JsError []),
          t @ [Exec ''rustup component list --toolchain nightly'' (Inr (out, err)),
               ShowInformationMessage ''RLS not installed. Install?'' [''Yes''] clicked])"
  | out err x where
      "\<not> components_listed out"
      "checkForRls h t =
         (Inl (JsError ''installing rust-analysis failed''),
          t @ [Exec ''rustup component list --toolchain nightly'' (Inr (out, err)),
               ShowInformationMessage ''RLS not installed. Install?'' [''Yes''] (Some ''Yes''),
               StartSpinner ''Installing RLS components'',
               Exec ''rustup component add rust-analysis --toolchain nightly'' (Inl x),
               ShowErrorMessage ''Could not install RLS component (rust-analysis)'',
               StopSpinner ''Could not install RLS''])"
  | out err o1 e1 x where
      "\<not> components_listed out"
      "checkForRls h t =
         (Inl (JsError ''installing rust-src failed''),
          t @ [Exec ''rustup component list --toolchain nightly'' (Inr (out, err)),
               ShowInformationMessage ''RLS not installed. Install?'' [''Yes''] (Some ''Yes''),
               StartSpinner ''Installing RLS components'',
               Exec ''rustup component add rust-analysis --toolchain nightly'' (Inr (o1, e1)),
               ConsoleLog o1, ConsoleLog e1,
               Exec ''rustup component add rust-src --toolchain nightly'' (Inl x),
               ShowErrorMessage ''Could not install RLS component (rust-src)'',
               StopSpinner ''Could not install RLS''])"
  | out err o1 e1 o2 e2 x where
      "\<not> components_listed out"
      "checkForRls h t =
         (Inl (JsError ''installing rls failed''),
          t @ [Exec ''rustup component list --toolchain nightly'' (Inr (out, err)),
               ShowInformationMessage ''RLS not installed. Install?'' [''Yes''] (Some ''Yes''),
               StartSpinner ''Installing RLS components'',
               Exec ''rustup component add rust-analysis --toolchain nightly'' (Inr (o1, e1)),
               ConsoleLog o1, ConsoleLog e1,
               Exec ''rustup component add rust-src --toolchain nightly'' (Inr (o2, e2)),
               ConsoleLog o2, ConsoleLog e2, ConsoleLog (js ''install rls''),
               Exec ''rustup component add rls --toolchain nightly'' (Inl x),
               ShowErrorMessage ''Could not install RLS component (rls)'',
               StopSpinner ''Could not install RLS''])"
  | out err o1 e1 o2 e2 o3 e3 where
      "\<not> components_listed out"
      "checkForRls h t =
         (Inr (),
          t @ [Exec ''rustup component list --toolchain nightly'' (Inr (out, err)),
               ShowInformationMessage ''RLS not installed. Install?'' [''Yes''] (Some ''Yes''),
               StartSpinner ''Installing RLS components'',
               Exec ''rustup component add rust-analysis --toolchain nightly'' (Inr (o1, e1)),
               ConsoleLog o1, ConsoleLog e1,
               Exec ''rustup component add rust-src --toolchain nightly'' (Inr (o2, e2)),
               ConsoleLog o2, ConsoleLog e2, ConsoleLog (js ''install rls''),
               Exec ''rustup component add rls --toolchain nightly'' (Inr (o3, e3)),
               ConsoleLog o3, ConsoleLog e3,
               StopSpinner ''RLS components installed successfully''])"
proof (cases "execChildProcess h t ''rustup component list --toolchain nightly''")
  case (Inl x)
  then show ?thesis using that(2) [of x]
    by (simp add: checkForRls_def hasRlsComponents_rejected)
next
  case (Inr p)
  obtain out err where p: "p = (out, err)" by (cases p)
  note probe = hasRlsComponents_resolved [OF Inr [unfolded p]]
  show ?thesis
  proof (cases "components_listed out")
    case True
    then show ?thesis using that(1) [of out err]
      by (simp add: checkForRls_def probe)
  next
    case absent: False
    define clicked where "clicked = showInformationMessage h
       (t @ [Exec ''rustup component list --toolchain nightly'' (Inr (out, err))])
       ''RLS not installed. Install?'' [''Yes'']"
    show ?thesis
    proof (cases "clicked = Some ''Yes''")
      case False
      then show ?thesis using absent that(3) [of out clicked err]
        by (simp add: checkForRls_def probe Let_def clicked_def)
    next
      case True
      then have run: "checkForRls h t =
         installRls h
           (t @ [Exec ''rustup component list --toolchain nightly'' (Inr (out, err)),
                 ShowInformationMessage ''RLS not installed. Install?'' [''Yes''] (Some ''Yes'')])"
        using absent by (simp add: checkForRls_def probe Let_def clicked_def)
      show ?thesis
      proof (cases rule: installRls_cases [where h = h and t =
           "t @ [Exec ''rustup component list --toolchain nightly'' (Inr (out, err)),
                 ShowInformationMessage ''RLS not installed. Install?'' [''Yes''] (Some ''Yes'')]"])
        case (analysis_failed x)
        then show ?thesis using run absent that(4) [of out err x] by simp
      next
        case (src_failed o1 e1 x)
        then show ?thesis using run absent that(5) [of out err o1 e1 x] by simp
      next
        case (rls_failed o1 e1 o2 e2 x)
        then show ?thesis using run absent that(6) [of out err o1 e1 o2 e2 x] by simp
      next
        case (installed o1 e1 o2 e2 o3 e3)
        then show ?thesis using run absent that(7) [of out err o1 e1 o2 e2 o3 e3] by simp
      qed
    qed
  qed
qed

lemma bootstrap_ordered:
  "take (length t) (snd (runRlsViaRustup h env t)) = t \<and>
   ordered [] (drop (length t) (snd (runRlsViaRustup h env t)))"
  by (cases rule: checkForNightly_cases [where h = h and t = t];
      cases rule: checkForRls_cases [where h = h and t = "snd (checkForNightly h t)"];
      simp add: runRlsViaRustup_def toolchain_ready_def components_ready_def)

lemma spawns_tryFn [simp]: "spawns (snd (tryFn h c t)) = spawns t"
  by (simp add: tryFn_def Let_def split: sum.splits prod.splits)

lemma spawns_installRls [simp]: "spawns (snd (installRls h t)) = spawns t"
proof -
  have a: "\<And>c t r t'. tryFn h c t = (r, t') \<Longrightarrow> spawns t' = spawns t"
    by (metis snd_conv spawns_tryFn)
  show ?thesis
    by (auto simp: installRls_def Let_def split: prod.splits option.splits dest!: a)
qed

lemma spawns_hasNightlyToolchain [simp]: "spawns (snd (hasNightlyToolchain h t)) = spawns t"
  by (simp add: hasNightlyToolchain_def Let_def split: sum.splits prod.splits)

lemma spawns_hasRlsComponents [simp]: "spawns (snd (hasRlsComponents h t)) = spawns t"
  by (simp add: hasRlsComponents_def Let_def split: sum.splits prod.splits)

lemma spawns_tryToInstallNightlyToolchain [simp]:
  "spawns (snd (tryToInstallNightlyToolchain h t)) = spawns t"
  by (simp add: tryToInstallNightlyToolchain_def Let_def split: sum.splits prod.splits)

lemma spawns_checkForNightly [simp]: "spawns (snd (checkForNightly h t)) = spawns t"
proof -
  have a: "\<And>r t'. hasNightlyToolchain h t = (r, t') \<Longrightarrow> spawns t' = spawns t"
    by (metis snd_conv spawns_hasNightlyToolchain)
  show ?thesis
    by (auto simp: checkForNightly_def Let_def split: prod.splits sum.splits dest!: a)
qed

lemma spawns_checkForRls [simp]: "spawns (snd (checkForRls h t)) = spawns t"
proof -
  have a: "\<And>r t'. hasRlsComponents h t = (r, t') \<Longrightarrow> spawns t' = spawns t"
    by (metis snd_conv spawns_hasRlsComponents)
  show ?thesis
    by (auto simp: checkForRls_def Let_def split: prod.splits sum.splits dest!: a)
qed

lemma spinner_shape:
  "tr = t @ StartSpinner m1 # mid @ [StopSpinner m2] \<Longrightarrow> spinner_calls mid = [] \<Longrightarrow>
   \<exists>m1 mid m2. tr = t @ [StartSpinner m1] @ mid @ [StopSpinner m2] \<and> spinner_calls mid = []"
  by auto

subsection \<open>Helper facts: the matcher and the lines of a string\<close>

lemma lastc_simps: "lastc p [] = p" "lastc p (x # xs) = lastc (Some x) xs"
  "lastc p (xs @ [x]) = Some x"
  by (auto simp: lastc_def)

lemma rx_ends_lit_iff:
  "(q, ys) \<in> set (rx_ends (lit s) (p, xs)) \<longleftrightarrow> xs = js s @ ys \<and> q = lastc p (js s)"
proof (induction s arbitrary: p xs)
  case Nil
  then show ?case by (auto simp: lit_def js_def lastc_simps)
next
  case (Cons a s)
  have IH: "\<And>p xs. (q, ys) \<in> set (rx_ends (foldr (\<lambda>c. Seq (Chr (of_char c))) s Eps) (p, xs)) \<longleftrightarrow>
     xs = js s @ ys \<and> q = lastc p (js s)"
    using Cons.IH by (simp add: lit_def)
  show ?case
    by (cases xs) (auto simp: lit_def js_def lastc_simps IH [unfolded js_def])
qed

lemma star_dot_iff:
  "length xs \<le> n \<Longrightarrow>
   (q, ys) \<in> set (star_ends (rx_ends Dot) n (p, xs)) \<longleftrightarrow>
     (\<exists>mid. xs = mid @ ys \<and> (\<forall>x \<in> set mid. \<not> lineTerminator x) \<and> q = lastc p mid)"
proof (induction n arbitrary: p xs)
  case 0
  then show ?case by (auto simp: lastc_simps)
next
  case (Suc n)
  show ?case
  proof (cases xs)
    case Nil
    then show ?thesis by (auto simp: lastc_simps)
  next
    case (Cons x xs')
    with Suc.prems have len: "length xs' \<le> n" by simp
    note IH = Suc.IH [OF len]
    show ?thesis
    proof (cases "lineTerminator x")
      case True
      then show ?thesis using Cons
        by (auto simp: Cons_eq_append_conv lastc_simps)
    next
      case False
      then show ?thesis using Cons IH [of "Some x"]
        by (auto simp: Cons_eq_append_conv lastc_simps)
    qed
  qed
qed

lemma rx_ends_star_dot_iff:
  "(q, ys) \<in> set (rx_ends (Star Dot) (p, xs)) \<longleftrightarrow>
     (\<exists>mid. xs = mid @ ys \<and> (\<forall>x \<in> set mid. \<not> lineTerminator x) \<and> q = lastc p mid)"
  using star_dot_iff [of xs "length xs"] by simp

lemma rx_ends_Seq_pair_iff:
  "(q, ys) \<in> set (rx_ends (Seq a b) c) \<longleftrightarrow>
     (\<exists>q' ys'. (q', ys') \<in> set (rx_ends a c) \<and> (q, ys) \<in> set (rx_ends b (q', ys')))"
  by auto

lemma rx_ends_Bol_iff:
  "(q, ys) \<in> set (rx_ends Bol (p, xs)) \<longleftrightarrow> q = p \<and> ys = xs \<and> bol p"
  by (auto simp: bol_def split: option.splits)

lemma rx_ends_Eol_iff:
  "(q, ys) \<in> set (rx_ends Eol (p, xs)) \<longleftrightarrow> q = p \<and> ys = xs \<and> eol xs"
  by (auto simp: eol_def split: list.splits)

lemma rx_ends_Alt_iff:
  "c' \<in> set (rx_ends (Alt a b) c) \<longleftrightarrow> c' \<in> set (rx_ends a c) \<or> c' \<in> set (rx_ends b c)"
  by simp

lemma component_rx_iff:
  "rx_ends (component_rx name) (p, xs) \<noteq> [] \<longleftrightarrow>
     bol p \<and>
     (\<exists>mid ys. (xs = js name @ mid @ js '' (default)'' @ ys \<or>
                xs = js name @ mid @ js '' (installed)'' @ ys) \<and>
               (\<forall>x \<in> set mid. \<not> lineTerminator x) \<and> eol ys)"
proof -
  have "rx_ends (component_rx name) (p, xs) \<noteq> [] \<longleftrightarrow>
        (\<exists>q ys. (q, ys) \<in> set (rx_ends (component_rx name) (p, xs)))"
    by (cases "rx_ends (component_rx name) (p, xs)") auto
  also have "\<dots> \<longleftrightarrow> bol p \<and>
     (\<exists>mid ys. (xs = js name @ mid @ js '' (default)'' @ ys \<or>
                xs = js name @ mid @ js '' (installed)'' @ ys) \<and>
               (\<forall>x \<in> set mid. \<not> lineTerminator x) \<and> eol ys)"
    unfolding component_rx_def rx_ends_Seq_pair_iff rx_ends_Bol_iff rx_ends_Eol_iff
      rx_ends_Alt_iff rx_ends_lit_iff rx_ends_star_dot_iff
    apply (simp add: js_def)
    apply blast
    done
  finally show ?thesis .
qed

lemma search_at_iff:
  "search_at r p s k \<noteq> - 1 \<longleftrightarrow>
     (\<exists>pre post. s = pre @ post \<and> rx_ends r (lastc p pre, post) \<noteq> [])"
proof (induction s arbitrary: p k)
  case Nil
  then show ?case by (simp add: lastc_simps)
next
  case (Cons x s)
  show ?case
  proof (cases "rx_ends r (p, x # s) \<noteq> []")
    case True
    then have "\<exists>pre post. x # s = pre @ post \<and> rx_ends r (lastc p pre, post) \<noteq> []"
      by (intro exI [of _ "[]"] exI [of _ "x # s"]) (simp add: lastc_simps)
    with True show ?thesis by simp
  next
    case False
    have "(\<exists>pre post. x # s = pre @ post \<and> rx_ends r (lastc p pre, post) \<noteq> []) \<longleftrightarrow>
          (\<exists>pre post. s = pre @ post \<and> rx_ends r (lastc (Some x) pre, post) \<noteq> [])"
      (is "?L \<longleftrightarrow> ?R")
    proof
      assume ?L
      then obtain pre post where a: "x # s = pre @ post" "rx_ends r (lastc p pre, post) \<noteq> []"
        by blast
      with False obtain pre' where "pre = x # pre'" by (cases pre) (auto simp: lastc_simps)
      with a show ?R by (auto simp: lastc_simps)
    next
      assume ?R
      then obtain pre post where "s = pre @ post" "rx_ends r (lastc (Some x) pre, post) \<noteq> []"
        by blast
      then show ?L by (intro exI [of _ "x # pre"] exI [of _ post]) (simp add: lastc_simps)
    qed
    with False Cons.IH [of "Some x" "Suc k"] show ?thesis by simp
  qed
qed

lemma search_iff:
  "search s r \<noteq> - 1 \<longleftrightarrow>
     (\<exists>pre post. s = pre @ post \<and> rx_ends r (lastc None pre, post) \<noteq> [])"
  unfolding search_def by (rule search_at_iff)

lemma lines_of_unfold:
  "lines_of s =
     takeWhile notLT s #
     (case dropWhile notLT s of [] \<Rightarrow> [] | y # r \<Rightarrow> lines_of r)"
proof (induction s)
  case Nil
  then show ?case by simp
next
  case (Cons x s)
  then show ?case by (cases "lineTerminator x") simp_all
qed

lemma eol_dropWhile: "eol (dropWhile notLT s)"
proof (cases "dropWhile notLT s")
  case Nil
  show ?thesis unfolding eol_def Nil by simp
next
  case (Cons y r)
  have "lineTerminator y" using hd_dropWhile [of notLT s] Cons by simp
  then show ?thesis unfolding eol_def Cons by simp
qed

lemma takeWhile_line:
  "\<forall>x \<in> set l. \<not> lineTerminator x \<Longrightarrow> eol post \<Longrightarrow> takeWhile notLT (l @ post) = l"
  by (cases post) (auto simp: eol_def takeWhile_append2 takeWhile_append)

lemma bol_lastc: "bol (lastc None pre) \<longleftrightarrow> pre = [] \<or> lineTerminator (last pre)"
  by (auto simp: bol_def lastc_def)

lemma bol_lastc_snoc: "lineTerminator y \<Longrightarrow> bol (lastc None pre) \<Longrightarrow> bol (lastc None (xs @ y # pre))"
  by (auto simp: bol_def lastc_def)

lemma in_lines_of_iff:
  "l \<in> set (lines_of s) \<longleftrightarrow>
     (\<exists>pre post. s = pre @ l @ post \<and> (\<forall>x \<in> set l. \<not> lineTerminator x) \<and>
        bol (lastc None pre) \<and> eol post)"
proof (induction s rule: length_induct)
  case (1 s)
  show ?case
  proof
    assume "l \<in> set (lines_of s)"
    then have "l \<in> set (takeWhile notLT s #
       (case dropWhile notLT s of [] \<Rightarrow> [] | y # r \<Rightarrow> lines_of r))"
      using lines_of_unfold [of s] by simp
    then consider (first) "l = takeWhile notLT s"
      | (later) y r where "dropWhile notLT s = y # r" "l \<in> set (lines_of r)"
      by (cases "dropWhile notLT s") auto
    then show "\<exists>pre post. s = pre @ l @ post \<and> (\<forall>x \<in> set l. \<not> lineTerminator x) \<and>
        bol (lastc None pre) \<and> eol post"
    proof cases
      case first
      have "s = [] @ l @ dropWhile notLT s" using first by simp
      moreover have "\<forall>x \<in> set l. \<not> lineTerminator x"
        using first by (auto dest: set_takeWhileD)
      ultimately show ?thesis using eol_dropWhile [of s]
        by (metis bol_lastc)
    next
      case later
      have s: "takeWhile notLT s @ y # r = s"
        using later(1) takeWhile_dropWhile_id [of notLT s] by simp
      have "length (takeWhile notLT s @ y # r) = length s"
        by (rule arg_cong [OF s])
      then have "length r < length s" by simp
      with 1 later(2) obtain pre post where r: "r = pre @ l @ post"
        "\<forall>x \<in> set l. \<not> lineTerminator x" "bol (lastc None pre)" "eol post"
        by blast
      have y: "lineTerminator y"
        using hd_dropWhile [of notLT s] later(1) by auto
      have "s = (takeWhile notLT s @ y # pre) @ l @ post"
        using s r(1) by (metis append.assoc append_Cons)
      moreover have "bol (lastc None (takeWhile notLT s @ y # pre))"
        using y r(3) by (rule bol_lastc_snoc)
      ultimately show ?thesis using r(2,4) by blast
    qed
  next
    assume "\<exists>pre post. s = pre @ l @ post \<and> (\<forall>x \<in> set l. \<not> lineTerminator x) \<and>
        bol (lastc None pre) \<and> eol post"
    then obtain pre post where s: "s = pre @ l @ post"
      and l: "\<forall>x \<in> set l. \<not> lineTerminator x"
      and pre: "bol (lastc None pre)" and post: "eol post"
      by blast
    show "l \<in> set (lines_of s)"
    proof (cases "pre = []")
      case True
      have "takeWhile notLT (l @ post) = l"
        using l post by (rule takeWhile_line)
      with True s have "takeWhile notLT s = l" by simp
      then show ?thesis by (subst lines_of_unfold) simp
    next
      case False
      with pre have lt: "lineTerminator (last pre)" by (simp add: bol_lastc)
      from False have "last pre \<in> set pre" by simp
      with lt have "\<exists>x \<in> set pre. \<not> notLT x" by blast
      then have dw: "dropWhile notLT s = dropWhile notLT pre @ l @ post"
        and ne: "dropWhile notLT pre \<noteq> []"
        unfolding s by (auto simp: dropWhile_append1 dropWhile_eq_Nil_conv)
      from ne obtain y rr where rr: "dropWhile notLT pre = y # rr"
        by (cases "dropWhile notLT pre") auto
      have pre_eq: "takeWhile notLT pre @ y # rr = pre"
        using rr takeWhile_dropWhile_id [of notLT pre] by simp
      have lastrr: "last rr = last pre" if "rr \<noteq> []"
      proof -
        have "last (takeWhile notLT pre @ y # rr) = last rr" using that by simp
        then show ?thesis unfolding pre_eq by simp
      qed
      have "length (takeWhile notLT pre @ y # rr) = length pre"
        by (rule arg_cong [OF pre_eq])
      then have "length rr < length pre" by simp
      then have len: "length (rr @ l @ post) < length s"
        unfolding s by simp
      have "bol (lastc None rr)"
      proof (cases "rr = []")
        case True
        then show ?thesis by (simp add: bol_lastc)
      next
        case False
        with lt lastrr show ?thesis by (simp add: bol_lastc)
      qed
      with 1 len l post have "l \<in> set (lines_of (rr @ l @ post))"
        by blast
      then show ?thesis
        by (subst lines_of_unfold) (simp add: dw rr)
    qed
  qed
qed

lemma notLT_annotation:
  "\<forall>x \<in> set (js '' (default)''). \<not> lineTerminator x"
  "\<forall>x \<in> set (js '' (installed)''). \<not> lineTerminator x"
  by (simp_all add: js_def lineTerminator_def)

lemma search_component_rx_iff:
  assumes name: "\<forall>x \<in> set (js name). \<not> lineTerminator x"
  shows "search out (component_rx name) \<noteq> - 1 \<longleftrightarrow>
           list_ex (line_shows name '' '') (lines_of out)"
proof
  assume "search out (component_rx name) \<noteq> - 1"
  then obtain pre post mid ys ann where out: "out = pre @ post"
    and pre: "bol (lastc None pre)"
    and post: "post = js name @ mid @ ann @ ys"
    and ann: "ann = js '' (default)'' \<or> ann = js '' (installed)''"
    and mid: "\<forall>x \<in> set mid. \<not> lineTerminator x" and ys: "eol ys"
    unfolding search_iff component_rx_iff by blast
  define l where "l = js name @ mid @ ann"
  have "\<forall>x \<in> set ann. \<not> lineTerminator x"
    using ann notLT_annotation by blast
  with name mid have "\<forall>x \<in> set l. \<not> lineTerminator x"
    unfolding l_def by auto
  moreover have "out = pre @ l @ ys"
    unfolding out post l_def by simp
  ultimately have "l \<in> set (lines_of out)"
    using pre ys unfolding in_lines_of_iff by blast
  moreover have "line_shows name '' '' l"
    using ann unfolding line_shows_def l_def by (auto simp: suffix_def)
  ultimately show "list_ex (line_shows name '' '') (lines_of out)"
    unfolding list_ex_iff by blast
next
  assume "list_ex (line_shows name '' '') (lines_of out)"
  then obtain l where l: "l \<in> set (lines_of out)" and sh: "line_shows name '' '' l"
    unfolding list_ex_iff by blast
  from l obtain pre post where out: "out = pre @ l @ post"
    and nl: "\<forall>x \<in> set l. \<not> lineTerminator x"
    and pre: "bol (lastc None pre)" and post: "eol post"
    unfolding in_lines_of_iff by blast
  from sh obtain rest where rest: "l = js name @ rest"
    unfolding line_shows_def prefix_def by blast
  with sh obtain mid ann where mid: "rest = mid @ ann"
    and ann: "ann = js '' (default)'' \<or> ann = js '' (installed)''"
    unfolding line_shows_def suffix_def by auto
  have "\<forall>x \<in> set mid. \<not> lineTerminator x"
    using nl rest mid by simp
  moreover have "l @ post = js name @ mid @ js '' (default)'' @ post \<or>
                 l @ post = js name @ mid @ js '' (installed)'' @ post"
    using rest mid ann by auto
  ultimately have "rx_ends (component_rx name) (lastc None pre, l @ post) \<noteq> []"
    using pre post unfolding component_rx_iff by blast
  then show "search out (component_rx name) \<noteq> - 1"
    unfolding search_iff out by blast
qed

subsection \<open>Helper facts: the sample outputs\<close>

lemma toolchains_A_nightly: "sublist (js ''nightly'') toolchains_A"
  by (simp add: toolchains_A_def js_def sublist_code)

lemma toolchains_B_no_nightly: "\<not> sublist (js ''nightly'') toolchains_B"
  by (simp add: toolchains_B_def js_def sublist_code)

lemma components_ok_listed: "components_listed components_ok"
  by (simp add: components_listed_def components_ok_def search_def component_rx_def lit_def
        js_def lineTerminator_def)

lemma run_host_ready:
  "runRlsViaRustup host_ready env0 [] =
     (Inr (ChildProcess ''rustup'' [''run'', ''nightly'', ''rls''] env0),
      [Exec ''rustup toolchain list'' (Inr (toolchains_A, [])),
       Exec ''rustup component list --toolchain nightly'' (Inr (components_ok, [])),
       Spawn ''rustup'' [''run'', ''nightly'', ''rls''] env0])"
proof -
  have a: "hasNightlyToolchain host_ready [] =
      (Inr True, [Exec ''rustup toolchain list'' (Inr (toolchains_A, []))])"
    using hasNightlyToolchain_resolved [of host_ready "[]" toolchains_A "[]"]
    by (simp add: host_ready_def toolchains_A_nightly)
  have b: "hasRlsComponents host_ready [Exec ''rustup toolchain list'' (Inr (toolchains_A, []))] =
      (Inr True, [Exec ''rustup toolchain list'' (Inr (toolchains_A, [])),
                  Exec ''rustup component list --toolchain nightly'' (Inr (components_ok, []))])"
    using hasRlsComponents_resolved [of host_ready
        "[Exec ''rustup toolchain list'' (Inr (toolchains_A, []))]" components_ok "[]"]
    by (simp add: host_ready_def components_ok_listed)
  show ?thesis
    by (simp add: runRlsViaRustup_def checkForNightly_def checkForRls_def a b)
qed

subsection \<open>The bootstrap\<close>

text \<open>
  C1. In every run of \<open>runRlsViaRustup\<close>, whatever the host answers: a process is
  spawned only after both the toolchain step and the component step have succeeded, and
  the component probe is run only after the toolchain step has succeeded. If the
  toolchain step \<open>checkForNightly\<close> rejects, the run rejects with the same error and
  the component probe is not run at all. The two steps have succeeded, as read off the
  trace, exactly when \<open>checkForNightly\<close> and \<open>checkForRls\<close> resolve.
\<close>

theorem bootstrap_order:
  "\<exists>new. snd (runRlsViaRustup h env t) = t @ new \<and>
     (\<forall>pre ev post. new = pre @ ev # post \<longrightarrow>
        (is_spawn ev \<longrightarrow> toolchain_ready pre \<and> components_ready pre) \<and>
        (is_component_probe ev \<longrightarrow> toolchain_ready pre)) \<and>
     (\<forall>e. fst (checkForNightly h t) = Inl e \<longrightarrow>
        fst (runRlsViaRustup h env t) = Inl e \<and> \<not> list_ex is_component_probe new) \<and>
     (fst (checkForNightly h t) = Inr ()) =
        toolchain_ready (drop (length t) (snd (checkForNightly h t))) \<and>
     (fst (checkForRls h t) = Inr ()) =
        components_ready (drop (length t) (snd (checkForRls h t)))"
proof -
  define new where "new = drop (length t) (snd (runRlsViaRustup h env t))"
  have tr: "snd (runRlsViaRustup h env t) = t @ new"
    using bootstrap_ordered [of t h env] unfolding new_def
    by (metis append_take_drop_id)
  have ord: "ordered [] new"
    using bootstrap_ordered [of t h env] unfolding new_def by simp
  have order: "\<forall>pre ev post. new = pre @ ev # post \<longrightarrow>
        (is_spawn ev \<longrightarrow> toolchain_ready pre \<and> components_ready pre) \<and>
        (is_component_probe ev \<longrightarrow> toolchain_ready pre)"
    using ord ordered_split [of "[]"] by fastforce
  have rej: "\<forall>e. fst (checkForNightly h t) = Inl e \<longrightarrow>
        fst (runRlsViaRustup h env t) = Inl e \<and> \<not> list_ex is_component_probe new"
    unfolding new_def
    by (cases rule: checkForNightly_cases [where h = h and t = t])
       (simp_all add: runRlsViaRustup_def)
  have nightly: "(fst (checkForNightly h t) = Inr ()) =
        toolchain_ready (drop (length t) (snd (checkForNightly h t)))"
    by (cases rule: checkForNightly_cases [where h = h and t = t])
       (simp_all add: toolchain_ready_def)
  have rls: "(fst (checkForRls h t) = Inr ()) =
        components_ready (drop (length t) (snd (checkForRls h t)))"
    by (cases rule: checkForRls_cases [where h = h and t = t])
       (simp_all add: components_ready_def)
  show ?thesis using tr order rej nightly rls by blast
qed

theorem bootstrap_order_witness:
  "snd (runRlsViaRustup host_ready env0 []) =
     [Exec ''rustup toolchain list'' (Inr (toolchains_A, [])),
      Exec ''rustup component list --toolchain nightly'' (Inr (components_ok, [])),
      Spawn ''rustup'' [''run'', ''nightly'', ''rls''] env0] \<and>
   toolchain_ready
     [Exec ''rustup toolchain list'' (Inr (toolchains_A, [])) :: string event] \<and>
   toolchain_ready
     [Exec ''rustup toolchain list'' (Inr (toolchains_A, [])),
      Exec ''rustup component list --toolchain nightly'' (Inr (components_ok, [])) :: string event] \<and>
   components_ready
     [Exec ''rustup toolchain list'' (Inr (toolchains_A, [])),
      Exec ''rustup component list --toolchain nightly'' (Inr (components_ok, [])) :: string event]"
proof -
  from bootstrap_order [of host_ready env0 "[]"] obtain new where
    tr: "snd (runRlsViaRustup host_ready env0 []) = [] @ new" and
    ord: "\<forall>pre ev post. new = pre @ ev # post \<longrightarrow>
        (is_spawn ev \<longrightarrow> toolchain_ready pre \<and> components_ready pre) \<and>
        (is_component_probe ev \<longrightarrow> toolchain_ready pre)"
    by blast
  have new: "new =
     [Exec ''rustup toolchain list'' (Inr (toolchains_A, [])),
      Exec ''rustup component list --toolchain nightly'' (Inr (components_ok, [])),
      Spawn ''rustup'' [''run'', ''nightly'', ''rls''] env0]"
    using tr by (simp add: run_host_ready)
  have s1: "new = [Exec ''rustup toolchain list'' (Inr (toolchains_A, []))] @
      Exec ''rustup component list --toolchain nightly'' (Inr (components_ok, [])) #
      [Spawn ''rustup'' [''run'', ''nightly'', ''rls''] env0]"
    using new by simp
  have s2: "new = [Exec ''rustup toolchain list'' (Inr (toolchains_A, [])),
      Exec ''rustup component list --toolchain nightly'' (Inr (components_ok, []))] @
      Spawn ''rustup'' [''run'', ''nightly'', ''rls''] env0 # []"
    using new by simp
  from ord [rule_format, OF s1] ord [rule_format, OF s2] show ?thesis
    by (simp add: run_host_ready)
qed

text \<open>
  C9. When \<open>runRlsViaRustup\<close> resolves, the process it resolves with was spawned as
  \<^verbatim>\<open>rustup run nightly rls\<close> with the environment the caller passed, as it was passed,
  and that is the only process the run has spawned.
\<close>

theorem spawn_env_unchanged:
  "fst (runRlsViaRustup h env t) = Inr p \<Longrightarrow>
     p = ChildProcess ''rustup'' [''run'', ''nightly'', ''rls''] env \<and>
     spawns (snd (runRlsViaRustup h env t)) =
       spawns t @ [(''rustup'', [''run'', ''nightly'', ''rls''], env)]"
proof -
  assume ok: "fst (runRlsViaRustup h env t) = Inr p"
  obtain r1 t1 where c1: "checkForNightly h t = (r1, t1)" by fastforce
  obtain r2 t2 where c2: "checkForRls h t1 = (r2, t2)" by fastforce
  have s1: "spawns t1 = spawns t" using c1 by (metis snd_conv spawns_checkForNightly)
  have s2: "spawns t2 = spawns t1" using c2 by (metis snd_conv spawns_checkForRls)
  show ?thesis using ok c1 c2 s1 s2
    by (auto simp: runRlsViaRustup_def split: sum.splits)
qed

theorem spawn_env_unchanged_witness:
  "spawns (snd (runRlsViaRustup host_ready env0 [])) =
     [(''rustup'', [''run'', ''nightly'', ''rls''], env0)]"
  using spawn_env_unchanged [of host_ready env0 "[]"
          "ChildProcess ''rustup'' [''run'', ''nightly'', ''rls''] env0"]
  by (simp add: run_host_ready)

text \<open>
  C5. When the toolchain probe answers false and the prompt resolves with anything but
  \<^verbatim>\<open>Yes\<close>, \<open>runRlsViaRustup\<close> rejects with an \<^verbatim>\<open>Error\<close> that has no message, and
  the whole run consists of the toolchain probe and the prompt: no component probe and no
  install command is run.
\<close>

theorem declined_toolchain_offer_aborts:
  assumes "fst (hasNightlyToolchain h t) = Inr False"
    and "showInformationMessage h (snd (hasNightlyToolchain h t))
           ''Nightly toolchain not installed. Install?'' [''Yes''] = clicked"
    and "clicked \<noteq> Some ''Yes''"
  shows "runRlsViaRustup h env t =
           (Inl (JsError []),
            t @ [Exec ''rustup toolchain list'' (execChildProcess h t ''rustup toolchain list''),
                 ShowInformationMessage ''Nightly toolchain not installed. Install?'' [''Yes''] clicked])"
proof (cases "execChildProcess h t ''rustup toolchain list''")
  case (Inl x)
  then show ?thesis using assms(1) by (simp add: hasNightlyToolchain_rejected)
next
  case (Inr p)
  obtain out err where p: "p = (out, err)" by (cases p)
  note probe = hasNightlyToolchain_resolved [OF Inr [unfolded p]]
  show ?thesis using assms Inr p
    by (simp add: runRlsViaRustup_def checkForNightly_def probe Let_def)
qed

theorem declined_toolchain_offer_aborts_witness:
  "runRlsViaRustup host_declined env0 [] =
     (Inl (JsError []),
      [Exec ''rustup toolchain list'' (Inr (toolchains_B, [])),
       ShowInformationMessage ''Nightly toolchain not installed. Install?'' [''Yes''] None])"
proof -
  have a: "hasNightlyToolchain host_declined [] =
      (Inr False, [Exec ''rustup toolchain list'' (Inr (toolchains_B, []))])"
    using hasNightlyToolchain_resolved [of host_declined "[]" toolchains_B "[]"]
    by (simp add: host_declined_def toolchains_B_no_nightly)
  show ?thesis
    using declined_toolchain_offer_aborts [of host_declined "[]" None env0]
    by (simp add: a) (simp add: host_declined_def)
qed

subsection \<open>The probes\<close>

text \<open>
  C3. Whenever the command \<^verbatim>\<open>rustup toolchain list\<close> resolves, \<open>hasNightlyToolchain\<close>
  answers true exactly when the captured standard output contains \<^verbatim>\<open>nightly\<close> as a
  contiguous substring, and false when it does not.
\<close>

theorem hasNightlyToolchain_iff_substring:
  "execChildProcess h t ''rustup toolchain list'' = Inr (stdout, stderr) \<Longrightarrow>
   fst (hasNightlyToolchain h t) = Inr (sublist (js ''nightly'') stdout)"
  by (simp add: hasNightlyToolchain_def indexOf_def indexOf_at_found)

theorem hasNightlyToolchain_iff_substring_witness:
  "fst (hasNightlyToolchain (scripted (\<lambda>c. Inr (toolchains_A, [])) None :: string host) []) = Inr True \<and>
   fst (hasNightlyToolchain (scripted (\<lambda>c. Inr (toolchains_B, [])) None :: string host) []) = Inr False"
  using hasNightlyToolchain_iff_substring
          [of "scripted (\<lambda>c. Inr (toolchains_A, [])) None :: string host" "[]" toolchains_A "[]"]
        hasNightlyToolchain_iff_substring
          [of "scripted (\<lambda>c. Inr (toolchains_B, [])) None :: string host" "[]" toolchains_B "[]"]
  by (simp add: toolchains_A_nightly toolchains_B_no_nightly)

text \<open>
  C2, with the space of the patterns in the source. Whenever the command
  \<^verbatim>\<open>rustup component list --toolchain nightly\<close> resolves, \<open>hasRlsComponents\<close> answers
  true exactly when, for each of \<^verbatim>\<open>rls\<close>, \<^verbatim>\<open>rust-analysis\<close> and \<^verbatim>\<open>rust-src\<close>, some
  line of the output starts with that name and ends with a space followed by
  \<^verbatim>\<open>(default)\<close> or \<^verbatim>\<open>(installed)\<close>; it answers false when such a line is missing for
  one of them.
\<close>

theorem hasRlsComponents_iff_lines:
  "execChildProcess h t ''rustup component list --toolchain nightly'' = Inr (stdout, stderr) \<Longrightarrow>
   fst (hasRlsComponents h t) =
     Inr (list_ex (line_shows ''rls'' '' '') (lines_of stdout) \<and>
          list_ex (line_shows ''rust-analysis'' '' '') (lines_of stdout) \<and>
          list_ex (line_shows ''rust-src'' '' '') (lines_of stdout))"
proof -
  assume run: "execChildProcess h t ''rustup component list --toolchain nightly'' = Inr (stdout, stderr)"
  have "components_listed stdout \<longleftrightarrow>
          list_ex (line_shows ''rls'' '' '') (lines_of stdout) \<and>
          list_ex (line_shows ''rust-analysis'' '' '') (lines_of stdout) \<and>
          list_ex (line_shows ''rust-src'' '' '') (lines_of stdout)"
    unfolding components_listed_def
    by (subst search_component_rx_iff, simp add: js_def lineTerminator_def)+ simp
  then show ?thesis
    by (simp add: hasRlsComponents_resolved [OF run])
qed

theorem hasRlsComponents_iff_lines_witness:
  "fst (hasRlsComponents (scripted (\<lambda>c. Inr (components_ok, [])) None :: string host) []) = Inr True \<and>
   fst (hasRlsComponents (scripted (\<lambda>c. Inr (components_no_src, [])) None :: string host) []) = Inr False"
  using hasRlsComponents_iff_lines
          [of "scripted (\<lambda>c. Inr (components_ok, [])) None :: string host" "[]" components_ok "[]"]
        hasRlsComponents_iff_lines
          [of "scripted (\<lambda>c. Inr (components_no_src, [])) None :: string host" "[]" components_no_src "[]"]
  by (simp add: components_ok_def components_no_src_def line_shows_def js_def lineTerminator_def
        suffix_to_prefix)

text \<open>
  The claim as it was stated has the patterns without the space. On an output whose
  three lines have no space before the annotation, every component has a line that
  matches \<^verbatim>\<open>^name.*\((default|installed)\)$\<close>, and \<open>hasRlsComponents\<close> answers false.
\<close>

theorem hasRlsComponents_pattern_counterexample:
  "list_ex (line_shows ''rls'' []) (lines_of components_nospace) \<and>
   list_ex (line_shows ''rust-analysis'' []) (lines_of components_nospace) \<and>
   list_ex (line_shows ''rust-src'' []) (lines_of components_nospace) \<and>
   fst (hasRlsComponents (scripted (\<lambda>c. Inr (components_nospace, [])) None :: string host) []) =
     Inr False"
proof -
  have "search components_nospace (component_rx ''rls'') = - 1"
    by (simp add: components_nospace_def search_def component_rx_def lit_def js_def
          lineTerminator_def)
  then have "fst (hasRlsComponents (scripted (\<lambda>c. Inr (components_nospace, [])) None :: string host) []) =
     Inr False"
    by (simp add: hasRlsComponents_def)
  moreover have "list_ex (line_shows ''rls'' []) (lines_of components_nospace) \<and>
   list_ex (line_shows ''rust-analysis'' []) (lines_of components_nospace) \<and>
   list_ex (line_shows ''rust-src'' []) (lines_of components_nospace)"
    by (simp add: components_nospace_def line_shows_def js_def lineTerminator_def suffix_to_prefix)
  ultimately show ?thesis by simp
qed

text \<open>
  C6. When the command of a probe rejects, the probe rejects with the value the command
  rejected with: it does not answer false. Before that it logs the value and shows an
  error message to the user.
\<close>

theorem probe_failure_propagates:
  "(execChildProcess h t ''rustup toolchain list'' = Inl e \<longrightarrow>
      hasNightlyToolchain h t =
        (Inl (Rejected e),
         t @ [Exec ''rustup toolchain list'' (Inl e), ConsoleLogError e,
              ShowErrorMessage ''Rustup not available. Install from https://www.rustup.rs/''])) \<and>
   (execChildProcess h t ''rustup component list --toolchain nightly'' = Inl e \<longrightarrow>
      hasRlsComponents h t =
        (Inl (Rejected e),
         t @ [Exec ''rustup component list --toolchain nightly'' (Inl e), ConsoleLogError e,
              ShowErrorMessage ''Unexpected error initialising RLS - error running rustup'']))"
  by (simp add: hasNightlyToolchain_rejected hasRlsComponents_rejected)

theorem probe_failure_propagates_witness:
  "hasNightlyToolchain host_broken [] =
     (Inl (Rejected ''exit status 1''),
      [Exec ''rustup toolchain list'' (Inl ''exit status 1''), ConsoleLogError ''exit status 1'',
       ShowErrorMessage ''Rustup not available. Install from https://www.rustup.rs/'']) \<and>
   hasRlsComponents host_broken [] =
     (Inl (Rejected ''exit status 1''),
      [Exec ''rustup component list --toolchain nightly'' (Inl ''exit status 1''),
       ConsoleLogError ''exit status 1'',
       ShowErrorMessage ''Unexpected error initialising RLS - error running rustup''])"
  using probe_failure_propagates [of host_broken "[]" "''exit status 1''"]
  by (simp add: host_broken_def)

subsection \<open>The installers\<close>

text \<open>
  C4. \<open>installRls\<close> runs the command that adds \<^verbatim>\<open>rust-analysis\<close>, then the one for
  \<^verbatim>\<open>rust-src\<close>, then the one for \<^verbatim>\<open>rls\<close>, each on the host. When the host fails
  the first of them, or resolves the first and fails the second, or resolves two and
  fails the third, \<open>installRls\<close> rejects with an error that names that component and
  has run no command after it; when the host resolves all three, it resolves. In each
  case the whole trace is given, with the answers of the host. Whatever the host does,
  the commands that were run are an initial part of that order which ends with the
  first failure.
\<close>

theorem installRls_order:
  "(\<forall>x.
      execChildProcess h (t @ [StartSpinner ''Installing RLS components''])
        ''rustup component add rust-analysis --toolchain nightly'' = Inl x \<longrightarrow>
      installRls h t =
        (Inl (JsError ''installing rust-analysis failed''),
         t @ [StartSpinner ''Installing RLS components'',
              Exec ''rustup component add rust-analysis --toolchain nightly'' (Inl x),
              ShowErrorMessage ''Could not install RLS component (rust-analysis)'',
              StopSpinner ''Could not install RLS''])) \<and>
   (\<forall>o1 e1 x.
      execChildProcess h (t @ [StartSpinner ''Installing RLS components''])
        ''rustup component add rust-analysis --toolchain nightly'' = Inr (o1, e1) \<and>
      execChildProcess h
        (t @ [StartSpinner ''Installing RLS components'',
              Exec ''rustup component add rust-analysis --toolchain nightly'' (Inr (o1, e1)),
              ConsoleLog o1, ConsoleLog e1])
        ''rustup component add rust-src --toolchain nightly'' = Inl x \<longrightarrow>
      installRls h t =
        (Inl (JsError ''installing rust-src failed''),
         t @ [StartSpinner ''Installing RLS components'',
              Exec ''rustup component add rust-analysis --toolchain nightly'' (Inr (o1, e1)),
              ConsoleLog o1, ConsoleLog e1,
              Exec ''rustup component add rust-src --toolchain nightly'' (Inl x),
              ShowErrorMessage ''Could not install RLS component (rust-src)'',
              StopSpinner ''Could not install RLS''])) \<and>
   (\<forall>o1 e1 o2 e2 x.
      execChildProcess h (t @ [StartSpinner ''Installing RLS components''])
        ''rustup component add rust-analysis --toolchain nightly'' = Inr (o1, e1) \<and>
      execChildProcess h
        (t @ [StartSpinner ''Installing RLS components'',
              Exec ''rustup component add rust-analysis --toolchain nightly'' (Inr (o1, e1)),
              ConsoleLog o1, ConsoleLog e1])
        ''rustup component add rust-src --toolchain nightly'' = Inr (o2, e2) \<and>
      execChildProcess h
        (t @ [StartSpinner ''Installing RLS components'',
              Exec ''rustup component add rust-analysis --toolchain nightly'' (Inr (o1, e1)),
              ConsoleLog o1, ConsoleLog e1,
              Exec ''rustup component add rust-src --toolchain nightly'' (Inr (o2, e2)),
              ConsoleLog o2, ConsoleLog e2, ConsoleLog (js ''install rls'')])
        ''rustup component add rls --toolchain nightly'' = Inl x \<longrightarrow>
      installRls h t =
        (Inl (JsError ''installing rls failed''),
         t @ [StartSpinner ''Installing RLS components'',
              Exec ''rustup component add rust-analysis --toolchain nightly'' (Inr (o1, e1)),
              ConsoleLog o1, ConsoleLog e1,
              Exec ''rustup component add rust-src --toolchain nightly'' (Inr (o2, e2)),
              ConsoleLog o2, ConsoleLog e2, ConsoleLog (js ''install rls''),
              Exec ''rustup component add rls --toolchain nightly'' (Inl x),
              ShowErrorMessage ''Could not install RLS component (rls)'',
              StopSpinner ''Could not install RLS''])) \<and>
   (\<forall>o1 e1 o2 e2 o3 e3.
      execChildProcess h (t @ [StartSpinner ''Installing RLS components''])
        ''rustup component add rust-analysis --toolchain nightly'' = Inr (o1, e1) \<and>
      execChildProcess h
        (t @ [StartSpinner ''Installing RLS components'',
              Exec ''rustup component add rust-analysis --toolchain nightly'' (Inr (o1, e1)),
              ConsoleLog o1, ConsoleLog e1])
        ''rustup component add rust-src --toolchain nightly'' = Inr (o2, e2) \<and>
      execChildProcess h
        (t @ [StartSpinner ''Installing RLS components'',
              Exec ''rustup component add rust-analysis --toolchain nightly'' (Inr (o1, e1)),
              ConsoleLog o1, ConsoleLog e1,
              Exec ''rustup component add rust-src --toolchain nightly'' (Inr (o2, e2)),
              ConsoleLog o2, ConsoleLog e2, ConsoleLog (js ''install rls'')])
        ''rustup component add rls --toolchain nightly'' = Inr (o3, e3) \<longrightarrow>
      installRls h t =
        (Inr (),
         t @ [StartSpinner ''Installing RLS components'',
              Exec ''rustup component add rust-analysis --toolchain nightly'' (Inr (o1, e1)),
              ConsoleLog o1, ConsoleLog e1,
              Exec ''rustup component add rust-src --toolchain nightly'' (Inr (o2, e2)),
              ConsoleLog o2, ConsoleLog e2, ConsoleLog (js ''install rls''),
              Exec ''rustup component add rls --toolchain nightly'' (Inr (o3, e3)),
              ConsoleLog o3, ConsoleLog e3,
              StopSpinner ''RLS components installed successfully''])) \<and>
   (fst (installRls h t), execs (drop (length t) (snd (installRls h t)))) \<in>
     {(Inl (JsError ''installing rust-analysis failed''),
         [(''rustup component add rust-analysis --toolchain nightly'', False)]),
      (Inl (JsError ''installing rust-src failed''),
         [(''rustup component add rust-analysis --toolchain nightly'', True),
          (''rustup component add rust-src --toolchain nightly'', False)]),
      (Inl (JsError ''installing rls failed''),
         [(''rustup component add rust-analysis --toolchain nightly'', True),
          (''rustup component add rust-src --toolchain nightly'', True),
          (''rustup component add rls --toolchain nightly'', False)]),
      (Inr (),
         [(''rustup component add rust-analysis --toolchain nightly'', True),
          (''rustup component add rust-src --toolchain nightly'', True),
          (''rustup component add rls --toolchain nightly'', True)])}"
proof (intro conjI allI impI; (elim conjE)?)
  fix x
  assume "execChildProcess h (t @ [StartSpinner ''Installing RLS components''])
        ''rustup component add rust-analysis --toolchain nightly'' = Inl x"
  then show "installRls h t =
        (Inl (JsError ''installing rust-analysis failed''),
         t @ [StartSpinner ''Installing RLS components'',
              Exec ''rustup component add rust-analysis --toolchain nightly'' (Inl x),
              ShowErrorMessage ''Could not install RLS component (rust-analysis)'',
              StopSpinner ''Could not install RLS''])"
    using tryFn_rejected [of h "t @ [StartSpinner ''Installing RLS components'']" "''rust-analysis''" x]
    by (simp add: installRls_def)
next
  fix o1 e1 x
  assume a: "execChildProcess h (t @ [StartSpinner ''Installing RLS components''])
        ''rustup component add rust-analysis --toolchain nightly'' = Inr (o1, e1)"
    and b: "execChildProcess h
        (t @ [StartSpinner ''Installing RLS components'',
              Exec ''rustup component add rust-analysis --toolchain nightly'' (Inr (o1, e1)),
              ConsoleLog o1, ConsoleLog e1])
        ''rustup component add rust-src --toolchain nightly'' = Inl x"
  show "installRls h t =
        (Inl (JsError ''installing rust-src failed''),
         t @ [StartSpinner ''Installing RLS components'',
              Exec ''rustup component add rust-analysis --toolchain nightly'' (Inr (o1, e1)),
              ConsoleLog o1, ConsoleLog e1,
              Exec ''rustup component add rust-src --toolchain nightly'' (Inl x),
              ShowErrorMessage ''Could not install RLS component (rust-src)'',
              StopSpinner ''Could not install RLS''])"
    using tryFn_resolved [of h "t @ [StartSpinner ''Installing RLS components'']"
            "''rust-analysis''" o1 e1]
          tryFn_rejected [of h "t @ [StartSpinner ''Installing RLS components'',
              Exec ''rustup component add rust-analysis --toolchain nightly'' (Inr (o1, e1)),
              ConsoleLog o1, ConsoleLog e1]" "''rust-src''" x] a b
    by (simp add: installRls_def)
next
  fix o1 e1 o2 e2 x
  assume a: "execChildProcess h (t @ [StartSpinner ''Installing RLS components''])
        ''rustup component add rust-analysis --toolchain nightly'' = Inr (o1, e1)"
    and b: "execChildProcess h
        (t @ [StartSpinner ''Installing RLS components'',
              Exec ''rustup component add rust-analysis --toolchain nightly'' (Inr (o1, e1)),
              ConsoleLog o1, ConsoleLog e1])
        ''rustup component add rust-src --toolchain nightly'' = Inr (o2, e2)"
    and c: "execChildProcess h
        (t @ [StartSpinner ''Installing RLS components'',
              Exec ''rustup component add rust-analysis --toolchain nightly'' (Inr (o1, e1)),
              ConsoleLog o1, ConsoleLog e1,
              Exec ''rustup component add rust-src --toolchain nightly'' (Inr (o2, e2)),
              ConsoleLog o2, ConsoleLog e2, ConsoleLog (js ''install rls'')])
        ''rustup component add rls --toolchain nightly'' = Inl x"
  show "installRls h t =
        (Inl (JsError ''installing rls failed''),
         t @ [StartSpinner ''Installing RLS components'',
              Exec ''rustup component add rust-analysis --toolchain nightly'' (Inr (o1, e1)),
              ConsoleLog o1, ConsoleLog e1,
              Exec ''rustup component add rust-src --toolchain nightly'' (Inr (o2, e2)),
              ConsoleLog o2, ConsoleLog e2, ConsoleLog (js ''install rls''),
              Exec ''rustup component add rls --toolchain nightly'' (Inl x),
              ShowErrorMessage ''Could not install RLS component (rls)'',
              StopSpinner ''Could not install RLS''])"
    using tryFn_resolved [of h "t @ [StartSpinner ''Installing RLS components'']"
            "''rust-analysis''" o1 e1]
          tryFn_resolved [of h "t @ [StartSpinner ''Installing RLS components'',
              Exec ''rustup component add rust-analysis --toolchain nightly'' (Inr (o1, e1)),
              ConsoleLog o1, ConsoleLog e1]" "''rust-src''" o2 e2]
          tryFn_rejected [of h "t @ [StartSpinner ''Installing RLS components'',
              Exec ''rustup component add rust-analysis --toolchain nightly'' (Inr (o1, e1)),
              ConsoleLog o1, ConsoleLog e1,
              Exec ''rustup component add rust-src --toolchain nightly'' (Inr (o2, e2)),
              ConsoleLog o2, ConsoleLog e2, ConsoleLog (js ''install rls'')]" "''rls''" x] a b c
    by (simp add: installRls_def)
next
  fix o1 e1 o2 e2 o3 e3
  assume a: "execChildProcess h (t @ [StartSpinner ''Installing RLS components''])
        ''rustup component add rust-analysis --toolchain nightly'' = Inr (o1, e1)"
    and b: "execChildProcess h
        (t @ [StartSpinner ''Installing RLS components'',
              Exec ''rustup component add rust-analysis --toolchain nightly'' (Inr (o1, e1)),
              ConsoleLog o1, ConsoleLog e1])
        ''rustup component add rust-src --toolchain nightly'' = Inr (o2, e2)"
    and c: "execChildProcess h
        (t @ [StartSpinner ''Installing RLS components'',
              Exec ''rustup component add rust-analysis --toolchain nightly'' (Inr (o1, e1)),
              ConsoleLog o1, ConsoleLog e1,
              Exec ''rustup component add rust-src --toolchain nightly'' (Inr (o2, e2)),
              ConsoleLog o2, ConsoleLog e2, ConsoleLog (js ''install rls'')])
        ''rustup component add rls --toolchain nightly'' = Inr (o3, e3)"
  show "installRls h t =
        (Inr (),
         t @ [StartSpinner ''Installing RLS components'',
              Exec ''rustup component add rust-analysis --toolchain nightly'' (Inr (o1, e1)),
              ConsoleLog o1, ConsoleLog e1,
              Exec ''rustup component add rust-src --toolchain nightly'' (Inr (o2, e2)),
              ConsoleLog o2, ConsoleLog e2, ConsoleLog (js ''install rls''),
              Exec ''rustup component add rls --toolchain nightly'' (Inr (o3, e3)),
              ConsoleLog o3, ConsoleLog e3,
              StopSpinner ''RLS components installed successfully''])"
    using tryFn_resolved [of h "t @ [StartSpinner ''Installing RLS components'']"
            "''rust-analysis''" o1 e1]
          tryFn_resolved [of h "t @ [StartSpinner ''Installing RLS components'',
              Exec ''rustup component add rust-analysis --toolchain nightly'' (Inr (o1, e1)),
              ConsoleLog o1, ConsoleLog e1]" "''rust-src''" o2 e2]
          tryFn_resolved [of h "t @ [StartSpinner ''Installing RLS components'',
              Exec ''rustup component add rust-analysis --toolchain nightly'' (Inr (o1, e1)),
              ConsoleLog o1, ConsoleLog e1,
              Exec ''rustup component add rust-src --toolchain nightly'' (Inr (o2, e2)),
              ConsoleLog o2, ConsoleLog e2, ConsoleLog (js ''install rls'')]" "''rls''" o3 e3] a b c
    by (simp add: installRls_def)
next
  show "(fst (installRls h t), execs (drop (length t) (snd (installRls h t)))) \<in>
     {(Inl (JsError ''installing rust-analysis failed''),
         [(''rustup component add rust-analysis --toolchain nightly'', False)]),
      (Inl (JsError ''installing rust-src failed''),
         [(''rustup component add rust-analysis --toolchain nightly'', True),
          (''rustup component add rust-src --toolchain nightly'', False)]),
      (Inl (JsError ''installing rls failed''),
         [(''rustup component add rust-analysis --toolchain nightly'', True),
          (''rustup component add rust-src --toolchain nightly'', True),
          (''rustup component add rls --toolchain nightly'', False)]),
      (Inr (),
         [(''rustup component add rust-analysis --toolchain nightly'', True),
          (''rustup component add rust-src --toolchain nightly'', True),
          (''rustup component add rls --toolchain nightly'', True)])}"
    by (cases rule: installRls_cases [where h = h and t = t]) simp_all
qed

theorem installRls_order_witness:
  "installRls host_broken [] =
     (Inl (JsError ''installing rust-analysis failed''),
      [StartSpinner ''Installing RLS components'',
       Exec ''rustup component add rust-analysis --toolchain nightly'' (Inl ''exit status 1''),
       ShowErrorMessage ''Could not install RLS component (rust-analysis)'',
       StopSpinner ''Could not install RLS'']) \<and>
   installRls host_src_fails [] =
     (Inl (JsError ''installing rust-src failed''),
      [StartSpinner ''Installing RLS components'',
       Exec ''rustup component add rust-analysis --toolchain nightly''
         (Inr (js ''info: component installed'', [])),
       ConsoleLog (js ''info: component installed''), ConsoleLog [],
       Exec ''rustup component add rust-src --toolchain nightly'' (Inl ''exit status 1''),
       ShowErrorMessage ''Could not install RLS component (rust-src)'',
       StopSpinner ''Could not install RLS'']) \<and>
   fst (installRls host_installs []) = Inr () \<and>
   execs (snd (installRls host_installs [])) =
     [(''rustup component add rust-analysis --toolchain nightly'', True),
      (''rustup component add rust-src --toolchain nightly'', True),
      (''rustup component add rls --toolchain nightly'', True)]"
proof -
  note w1 = installRls_order [of host_broken "[]", THEN conjunct1, rule_format, of "''exit status 1''"]
  note w2 = installRls_order [of host_src_fails "[]", THEN conjunct2, THEN conjunct1, rule_format,
      of "js ''info: component installed''" "[]" "''exit status 1''"]
  note w4 = installRls_order [of host_installs "[]", THEN conjunct2, THEN conjunct2, THEN conjunct2,
      THEN conjunct1, rule_format, of "[]" "[]" "[]" "[]" "[]" "[]"]
  have a: "installRls host_broken [] =
     (Inl (JsError ''installing rust-analysis failed''),
      [StartSpinner ''Installing RLS components'',
       Exec ''rustup component add rust-analysis --toolchain nightly'' (Inl ''exit status 1''),
       ShowErrorMessage ''Could not install RLS component (rust-analysis)'',
       StopSpinner ''Could not install RLS''])"
    using w1 by (simp add: host_broken_def)
  have b: "installRls host_src_fails [] =
     (Inl (JsError ''installing rust-src failed''),
      [StartSpinner ''Installing RLS components'',
       Exec ''rustup component add rust-analysis --toolchain nightly''
         (Inr (js ''info: component installed'', [])),
       ConsoleLog (js ''info: component installed''), ConsoleLog [],
       Exec ''rustup component add rust-src --toolchain nightly'' (Inl ''exit status 1''),
       ShowErrorMessage ''Could not install RLS component (rust-src)'',
       StopSpinner ''Could not install RLS''])"
    using w2 by (simp add: host_src_fails_def)
  have c: "installRls host_installs [] =
     (Inr (),
      [StartSpinner ''Installing RLS components'',
       Exec ''rustup component add rust-analysis --toolchain nightly'' (Inr ([], [])),
       ConsoleLog [], ConsoleLog [],
       Exec ''rustup component add rust-src --toolchain nightly'' (Inr ([], [])),
       ConsoleLog [], ConsoleLog [], ConsoleLog (js ''install rls''),
       Exec ''rustup component add rls --toolchain nightly'' (Inr ([], [])),
       ConsoleLog [], ConsoleLog [],
       StopSpinner ''RLS components installed successfully''])"
    using w4 by (simp add: host_installs_def)
  show ?thesis by (simp add: a b c)
qed

text \<open>
  C7, as the code has it. When \<open>installRls\<close> rejects, the error is an \<^verbatim>\<open>Error\<close> whose
  message names the component whose command failed, which is the last command that was
  run. When \<open>tryToInstallNightlyToolchain\<close> rejects, the error is the value the install
  command rejected with, unchanged; that it was the toolchain that failed is said in the
  error message shown to the user, not in the error.
\<close>

theorem install_error_subject:
  "(\<forall>err. fst (installRls h t) = Inl err \<longrightarrow>
      err = JsError ''installing rust-analysis failed'' \<and>
        last (execs (snd (installRls h t))) =
          (''rustup component add rust-analysis --toolchain nightly'', False) \<or>
      err = JsError ''installing rust-src failed'' \<and>
        last (execs (snd (installRls h t))) =
          (''rustup component add rust-src --toolchain nightly'', False) \<or>
      err = JsError ''installing rls failed'' \<and>
        last (execs (snd (installRls h t))) =
          (''rustup component add rls --toolchain nightly'', False)) \<and>
   (\<forall>err. fst (tryToInstallNightlyToolchain h t) = Inl err \<longrightarrow>
      (\<exists>x. execChildProcess h (t @ [StartSpinner ''Installing nightly toolchain...''])
              ''rustup toolchain install nightly'' = Inl x \<and>
           err = Rejected x \<and>
           ShowErrorMessage ''Could not install nightly toolchain''
             \<in> set (snd (tryToInstallNightlyToolchain h t))))"
proof (intro conjI)
  show "\<forall>err. fst (installRls h t) = Inl err \<longrightarrow>
      err = JsError ''installing rust-analysis failed'' \<and>
        last (execs (snd (installRls h t))) =
          (''rustup component add rust-analysis --toolchain nightly'', False) \<or>
      err = JsError ''installing rust-src failed'' \<and>
        last (execs (snd (installRls h t))) =
          (''rustup component add rust-src --toolchain nightly'', False) \<or>
      err = JsError ''installing rls failed'' \<and>
        last (execs (snd (installRls h t))) =
          (''rustup component add rls --toolchain nightly'', False)"
    by (cases rule: installRls_cases [where h = h and t = t]) simp_all
  show "\<forall>err. fst (tryToInstallNightlyToolchain h t) = Inl err \<longrightarrow>
      (\<exists>x. execChildProcess h (t @ [StartSpinner ''Installing nightly toolchain...''])
              ''rustup toolchain install nightly'' = Inl x \<and>
           err = Rejected x \<and>
           ShowErrorMessage ''Could not install nightly toolchain''
             \<in> set (snd (tryToInstallNightlyToolchain h t)))"
    by (cases rule: tryToInstallNightlyToolchain_cases [where h = h and t = t]) simp_all
qed

theorem install_error_subject_witness:
  "fst (installRls host_broken []) = Inl (JsError ''installing rust-analysis failed'') \<and>
   last (execs (snd (installRls host_broken []))) =
     (''rustup component add rust-analysis --toolchain nightly'', False) \<and>
   fst (tryToInstallNightlyToolchain host_broken []) = Inl (Rejected ''exit status 1'') \<and>
   ShowErrorMessage ''Could not install nightly toolchain''
     \<in> set (snd (tryToInstallNightlyToolchain host_broken []))"
proof -
  have a: "fst (installRls host_broken []) = Inl (JsError ''installing rust-analysis failed'')"
    by (simp add: installRls_def tryFn_def host_broken_def)
  have b: "fst (tryToInstallNightlyToolchain host_broken []) = Inl (Rejected ''exit status 1'')"
    by (simp add: tryToInstallNightlyToolchain_def host_broken_def)
  note sub = install_error_subject [of host_broken "[]"]
  from sub [THEN conjunct1, rule_format, OF a] sub [THEN conjunct2, rule_format, OF b] a b
  show ?thesis by auto
qed

text \<open>
  The claim as it was stated asks that the error of a failed toolchain install says that
  the toolchain failed. A run that is aborted by a failed toolchain install and a run
  that is aborted by a failed toolchain probe reject with the same value.
\<close>

theorem install_error_subject_counterexample:
  "fst (runRlsViaRustup host_install_fails env0 []) = Inl (Rejected ''exit status 1'') \<and>
   execs (snd (runRlsViaRustup host_install_fails env0 [])) =
     [(''rustup toolchain list'', True), (''rustup toolchain install nightly'', False)] \<and>
   fst (runRlsViaRustup host_broken env0 []) = Inl (Rejected ''exit status 1'') \<and>
   execs (snd (runRlsViaRustup host_broken env0 [])) = [(''rustup toolchain list'', False)]"
proof -
  have a: "hasNightlyToolchain host_install_fails [] =
      (Inr False, [Exec ''rustup toolchain list'' (Inr (toolchains_B, []))])"
    using hasNightlyToolchain_resolved [of host_install_fails "[]" toolchains_B "[]"]
    by (simp add: host_install_fails_def toolchains_B_no_nightly)
  have b: "hasNightlyToolchain host_broken [] =
     (Inl (Rejected ''exit status 1''),
      [Exec ''rustup toolchain list'' (Inl ''exit status 1''), ConsoleLogError ''exit status 1'',
       ShowErrorMessage ''Rustup not available. Install from https://www.rustup.rs/''])"
    using hasNightlyToolchain_rejected [of host_broken "[]" "''exit status 1''"]
    by (simp add: host_broken_def)
  have c: "runRlsViaRustup host_install_fails env0 [] =
     (Inl (Rejected ''exit status 1''),
      [Exec ''rustup toolchain list'' (Inr (toolchains_B, [])),
       ShowInformationMessage ''Nightly toolchain not installed. Install?'' [''Yes''] (Some ''Yes''),
       StartSpinner ''Installing nightly toolchain...'',
       Exec ''rustup toolchain install nightly'' (Inl ''exit status 1''),
       ConsoleLogError ''exit status 1'', ShowErrorMessage ''Could not install nightly toolchain'',
       StopSpinner ''Could not install nightly toolchain''])"
  proof -
    have ask: "\<And>t m l. showInformationMessage host_install_fails t m l = Some ''Yes''"
      by (simp add: host_install_fails_def)
    have inst: "\<And>t. tryToInstallNightlyToolchain host_install_fails t =
       (Inl (Rejected ''exit status 1''),
        t @ [StartSpinner ''Installing nightly toolchain...'',
             Exec ''rustup toolchain install nightly'' (Inl ''exit status 1''),
             ConsoleLogError ''exit status 1'', ShowErrorMessage ''Could not install nightly toolchain'',
             StopSpinner ''Could not install nightly toolchain''])"
      by (simp add: tryToInstallNightlyToolchain_def host_install_fails_def)
    show ?thesis
      by (simp add: runRlsViaRustup_def checkForNightly_def a ask inst)
  qed
  have d: "runRlsViaRustup host_broken env0 [] =
     (Inl (Rejected ''exit status 1''),
      [Exec ''rustup toolchain list'' (Inl ''exit status 1''), ConsoleLogError ''exit status 1'',
       ShowErrorMessage ''Rustup not available. Install from https://www.rustup.rs/''])"
    by (simp add: runRlsViaRustup_def checkForNightly_def b)
  show ?thesis by (simp add: c d)
qed

subsection \<open>The update and the spinner\<close>

text \<open>
  C8. \<open>rustupUpdate\<close> always resolves. When the update command resolves with an output
  that contains \<^verbatim>\<open>unchanged\<close>, the spinner is stopped with \<^verbatim>\<open>Up to date.\<close>; when the
  command rejects, the value is logged and the spinner is stopped with a message that an
  error occurred.
\<close>

theorem rustupUpdate_swallows_errors:
  "fst (rustupUpdate h t) = Inr () \<and>
   (\<forall>stdout stderr.
      execChildProcess h (t @ [StartSpinner ''Updating RLS...'']) ''rustup update'' =
        Inr (stdout, stderr) \<and>
      sublist (js ''unchanged'') stdout \<longrightarrow>
      snd (rustupUpdate h t) =
        t @ [StartSpinner ''Updating RLS...'', Exec ''rustup update'' (Inr (stdout, stderr)),
             StopSpinner ''Up to date.'']) \<and>
   (\<forall>e.
      execChildProcess h (t @ [StartSpinner ''Updating RLS...'']) ''rustup update'' = Inl e \<longrightarrow>
      snd (rustupUpdate h t) =
        t @ [StartSpinner ''Updating RLS...'', Exec ''rustup update'' (Inl e), ConsoleLogError e,
             StopSpinner ''An error occurred whilst trying to update.''])"
  by (cases rule: rustupUpdate_cases [where h = h and t = t]) simp_all

theorem rustupUpdate_swallows_errors_witness:
  "rustupUpdate (scripted (\<lambda>c. Inr (update_unchanged, [])) None :: string host) [] =
     (Inr (), [StartSpinner ''Updating RLS...'',
               Exec ''rustup update'' (Inr (update_unchanged, [])),
               StopSpinner ''Up to date.'']) \<and>
   rustupUpdate host_broken [] =
     (Inr (), [StartSpinner ''Updating RLS...'', Exec ''rustup update'' (Inl ''exit status 1''),
               ConsoleLogError ''exit status 1'',
               StopSpinner ''An error occurred whilst trying to update.''])"
proof -
  have u: "sublist (js ''unchanged'') update_unchanged"
    by (simp add: update_unchanged_def js_def sublist_code)
  note a = rustupUpdate_swallows_errors
    [of "scripted (\<lambda>c. Inr (update_unchanged, [])) None :: string host" "[]"]
  note b = rustupUpdate_swallows_errors [of host_broken "[]"]
  have "snd (rustupUpdate (scripted (\<lambda>c. Inr (update_unchanged, [])) None :: string host) []) =
     [StartSpinner ''Updating RLS...'', Exec ''rustup update'' (Inr (update_unchanged, [])),
      StopSpinner ''Up to date.'']"
    using a [THEN conjunct2, THEN conjunct1, rule_format, of update_unchanged "[]"] u by simp
  moreover have "snd (rustupUpdate host_broken []) =
     [StartSpinner ''Updating RLS...'', Exec ''rustup update'' (Inl ''exit status 1''),
      ConsoleLogError ''exit status 1'',
      StopSpinner ''An error occurred whilst trying to update.'']"
    using b [THEN conjunct2, THEN conjunct2, rule_format, of "''exit status 1''"]
    by (simp add: host_broken_def)
  ultimately show ?thesis
    using a [THEN conjunct1] b [THEN conjunct1] by (simp add: prod_eq_iff)
qed

text \<open>
  C10. \<open>rustupUpdate\<close>, \<open>tryToInstallNightlyToolchain\<close> and \<open>installRls\<close> each start the
  spinner first and stop it last, on every path, and do not touch it in between: one
  start and one stop.
\<close>

theorem spinner_stopped_once:
  "(\<exists>m1 mid m2. snd (rustupUpdate h t) = t @ [StartSpinner m1] @ mid @ [StopSpinner m2] \<and>
      spinner_calls mid = []) \<and>
   (\<exists>m1 mid m2. snd (tryToInstallNightlyToolchain h t) = t @ [StartSpinner m1] @ mid @ [StopSpinner m2] \<and>
      spinner_calls mid = []) \<and>
   (\<exists>m1 mid m2. snd (installRls h t) = t @ [StartSpinner m1] @ mid @ [StopSpinner m2] \<and>
      spinner_calls mid = [])"
proof (intro conjI)
  show "\<exists>m1 mid m2. snd (rustupUpdate h t) = t @ [StartSpinner m1] @ mid @ [StopSpinner m2] \<and>
      spinner_calls mid = []"
  proof (cases rule: rustupUpdate_cases [where h = h and t = t])
    case (unchanged out err)
    show ?thesis
      by (rule spinner_shape [where mid = "[Exec ''rustup update'' (Inr (out, err))]"])
         (simp_all add: unchanged)
  next
    case (changed out err)
    show ?thesis
      by (rule spinner_shape [where mid = "[Exec ''rustup update'' (Inr (out, err))]"])
         (simp_all add: changed)
  next
    case (failed x)
    show ?thesis
      by (rule spinner_shape [where mid = "[Exec ''rustup update'' (Inl x), ConsoleLogError x]"])
         (simp_all add: failed)
  qed
  show "\<exists>m1 mid m2. snd (tryToInstallNightlyToolchain h t) =
          t @ [StartSpinner m1] @ mid @ [StopSpinner m2] \<and> spinner_calls mid = []"
  proof (cases rule: tryToInstallNightlyToolchain_cases [where h = h and t = t])
    case (installed out err)
    show ?thesis
      by (rule spinner_shape [where mid = "[Exec ''rustup toolchain install nightly'' (Inr (out, err)),
               ConsoleLog out, ConsoleLog err]"])
         (simp_all add: installed)
  next
    case (install_failed x)
    show ?thesis
      by (rule spinner_shape [where mid = "[Exec ''rustup toolchain install nightly'' (Inl x),
               ConsoleLogError x, ShowErrorMessage ''Could not install nightly toolchain'']"])
         (simp_all add: install_failed)
  qed
  show "\<exists>m1 mid m2. snd (installRls h t) = t @ [StartSpinner m1] @ mid @ [StopSpinner m2] \<and>
      spinner_calls mid = []"
  proof (cases rule: installRls_cases [where h = h and t = t])
    case (analysis_failed x)
    show ?thesis
      by (rule spinner_shape [where mid =
            "[Exec ''rustup component add rust-analysis --toolchain nightly'' (Inl x),
              ShowErrorMessage ''Could not install RLS component (rust-analysis)'']"])
         (simp_all add: analysis_failed)
  next
    case (src_failed o1 e1 x)
    show ?thesis
      by (rule spinner_shape [where mid =
            "[Exec ''rustup component add rust-analysis --toolchain nightly'' (Inr (o1, e1)),
               ConsoleLog o1, ConsoleLog e1,
               Exec ''rustup component add rust-src --toolchain nightly'' (Inl x),
               ShowErrorMessage ''Could not install RLS component (rust-src)'']"])
         (simp_all add: src_failed)
  next
    case (rls_failed o1 e1 o2 e2 x)
    show ?thesis
      by (rule spinner_shape [where mid =
            "[Exec ''rustup component add rust-analysis --toolchain nightly'' (Inr (o1, e1)),
               ConsoleLog o1, ConsoleLog e1,
               Exec ''rustup component add rust-src --toolchain nightly'' (Inr (o2, e2)),
               ConsoleLog o2, ConsoleLog e2, ConsoleLog (js ''install rls''),
               Exec ''rustup component add rls --toolchain nightly'' (Inl x),
               ShowErrorMessage ''Could not install RLS component (rls)'']"])
         (simp_all add: rls_failed)
  next
    case (installed o1 e1 o2 e2 o3 e3)
    show ?thesis
      by (rule spinner_shape [where mid =
            "[Exec ''rustup component add rust-analysis --toolchain nightly'' (Inr (o1, e1)),
               ConsoleLog o1, ConsoleLog e1,
               Exec ''rustup component add rust-src --toolchain nightly'' (Inr (o2, e2)),
               ConsoleLog o2, ConsoleLog e2, ConsoleLog (js ''install rls''),
               Exec ''rustup component add rls --toolchain nightly'' (Inr (o3, e3)),
               ConsoleLog o3, ConsoleLog e3]"])
         (simp_all add: installed)
  qed
qed

end
